theory Spec2Isabelle
  imports Main
begin

section \<open>Python values\<close>

text \<open>
  The manager holds JSON documents, reads JSON replies and passes Python values around.
  A float is kept exactly as mantissa and binary exponent (or one of the three special
  values that Python's JSON reader accepts); \<open>JNull\<close> is Python's \<open>None\<close>.
\<close>

datatype pyfloat = Finite int int | PosInf | NegInf | NaN

datatype json =
    JNull
  | JBool bool
  | JInt int
  | JFloat pyfloat
  | JStr string
  | JArr "json list"
  | JObj "(string \<times> json) list"

text \<open>
  A Python dict is an association list read with \<open>map_of\<close>. The records of the manager
  (\<open>self.auth_token_data\<close> and its two siblings) are meant to be dicts, the empty dict
  being the absent record; what they hold is whatever \<open>json.load\<close> read from the file, so
  they are JSON values.
\<close>

type_synonym pydict = "(string \<times> json) list"

datatype exn =
    RequestException
  | HTTPError int
  | JSONDecodeError
  | KeyError
  | AttributeError
  | TypeError
  | ValueError
  | OverflowError
  | OSError

text \<open>Truth value of a Python object, as \<open>if x\<close>, \<open>not x\<close> and \<open>x and y\<close> test it.\<close>

fun truthy :: "json \<Rightarrow> bool" where
  "truthy JNull = False"
| "truthy (JBool b) = b"
| "truthy (JInt n) = (n \<noteq> 0)"
| "truthy (JFloat f) = (case f of Finite m e \<Rightarrow> m \<noteq> 0 | PosInf \<Rightarrow> True | NegInf \<Rightarrow> True | NaN \<Rightarrow> True)"
| "truthy (JStr x) = (x \<noteq> [])"
| "truthy (JArr xs) = (xs \<noteq> [])"
| "truthy (JObj kvs) = (kvs \<noteq> [])"

text \<open>The entry of a record under a key, as \<open>d.get(k)\<close> returns it for a dict: the
  value, or \<open>None\<close>. It is used to state properties; the code's own \<open>.get\<close> is \<open>py_get\<close>
  below, which fails on a value that is not a dict.\<close>

definition dict_get :: "json \<Rightarrow> string \<Rightarrow> json" where
  "dict_get d k =
     (case d of
        JObj kvs \<Rightarrow> (case map_of kvs k of None \<Rightarrow> JNull | Some v \<Rightarrow> v)
      | _ \<Rightarrow> JNull)"

text \<open>\<open>x.get(k, default)\<close> on any value: only a dict has the method.\<close>

fun py_get :: "json \<Rightarrow> string \<Rightarrow> json \<Rightarrow> exn + json" where
  "py_get (JObj kvs) k dflt = Inr (case map_of kvs k of None \<Rightarrow> dflt | Some v \<Rightarrow> v)"
| "py_get _ k dflt = Inl AttributeError"

text \<open>\<open>x[k]\<close> with a string key: a missing key of a dict is a KeyError, any other
  value cannot be indexed by a string.\<close>

fun py_getitem :: "json \<Rightarrow> string \<Rightarrow> exn + json" where
  "py_getitem (JObj kvs) k = (case map_of kvs k of None \<Rightarrow> Inl KeyError | Some v \<Rightarrow> Inr v)"
| "py_getitem _ k = Inl TypeError"

fun is_substring :: "string \<Rightarrow> string \<Rightarrow> bool" where
  "is_substring p [] = (p = [])"
| "is_substring p (c # cs) = (take (length p) (c # cs) = p \<or> is_substring p cs)"

text \<open>\<open>k in x\<close> with a string \<open>k\<close>: key of a dict, element of a list, substring of a
  string; a number, a boolean or \<open>None\<close> is not iterable.\<close>

fun py_contains :: "json \<Rightarrow> string \<Rightarrow> exn + bool" where
  "py_contains (JObj kvs) k = Inr (map_of kvs k \<noteq> None)"
| "py_contains (JArr xs) k = Inr (JStr k \<in> set xs)"
| "py_contains (JStr x) k = Inr (is_substring k x)"
| "py_contains _ k = Inl TypeError"

section \<open>Time\<close>

text \<open>
  An instant is a number of microseconds since 0001-01-01T00:00:00; \<open>datetime\<close>
  covers the years 1 to 9999. A parsed timestamp has its wall-clock reading and, when
  the text names a zone, the offset of that zone from UTC.
\<close>

record pydatetime =
  wall :: int
  utcoffset :: "int option"

definition MAX_MICROS :: int where
  "MAX_MICROS = 3652059 * 86400000000"

datatype td_unit = Days | Seconds

fun unit_micros :: "td_unit \<Rightarrow> int" where
  "unit_micros Days = 86400000000"
| "unit_micros Seconds = 1000000"

text \<open>\<open>timedelta\<close> holds at most 999999999 days either way.\<close>

definition timedelta_int :: "td_unit \<Rightarrow> int \<Rightarrow> exn + int" where
  "timedelta_int u n =
     (let d = (n * unit_micros u) div 86400000000
      in if - 999999999 \<le> d \<and> d \<le> 999999999 then Inr (n * unit_micros u)
         else Inl OverflowError)"

text \<open>\<open>datetime + timedelta\<close>: the sum has to stay within the years 1 to 9999.\<close>

definition datetime_add :: "int \<Rightarrow> int \<Rightarrow> exn + int" where
  "datetime_add t d =
     (if 0 \<le> t + d \<and> t + d < MAX_MICROS then Inr (t + d) else Inl OverflowError)"

text \<open>The instant a parsed timestamp denotes, a timestamp without zone read as UTC
  (\<open>expiration_date.replace(tzinfo=timezone.utc)\<close>).\<close>

definition utc_instant :: "pydatetime \<Rightarrow> int" where
  "utc_instant dt = (case utcoffset dt of None \<Rightarrow> wall dt | Some off \<Rightarrow> wall dt - off)"

section \<open>The environment: clock, remote service, file system, library\<close>

datatype endpoint = SETUP_URL | TOKEN_URL | DETAILS_URL

datatype fname = INVITE_CODE_FILE | REFRESH_TOKEN_FILE | AUTH_TOKEN_FILE

text \<open>A request is the endpoint and the value of the one header that carries the
  credential (\<open>code\<close>, \<open>refreshToken\<close>, \<open>token\<close>).\<close>

type_synonym request = "endpoint \<times> json"

text \<open>A reply has a status and a body; \<open>json_body\<close> is \<open>None\<close> when the body is not
  JSON, so that \<open>response.json()\<close> raises.\<close>

record response =
  status_code :: int
  json_body :: "json option"

text \<open>
  Everything the code takes from outside is a field of the environment:
  \<^item> \<open>clock k\<close> is what the \<open>k\<close>-th call of \<open>datetime.now(timezone.utc)\<close> returns;
  \<^item> \<open>remote h r\<close> is the outcome of \<open>requests.get\<close> for request \<open>r\<close> after the
    requests \<open>h\<close>: a reply, or \<open>None\<close> when the call raises (no connection, timeout,
    a header the library refuses);
  \<^item> \<open>can_write f\<close> tells whether \<open>open(f, 'w')\<close> and the dump succeed, \<open>can_remove f\<close>
    whether \<open>os.remove(f)\<close> does;
  \<^item> \<open>fromisoformat\<close> and \<open>isoformat\<close> are the two functions of \<open>datetime\<close>
    (\<open>None\<close>: the text is not a timestamp, a ValueError), \<open>timedelta_float\<close> is the
    conversion of a float number of days or seconds to microseconds, with its rounding.
\<close>

record env =
  clock :: "nat \<Rightarrow> int"
  remote :: "request list \<Rightarrow> request \<Rightarrow> response option"
  can_write :: "fname \<Rightarrow> bool"
  can_remove :: "fname \<Rightarrow> bool"
  fromisoformat :: "string \<Rightarrow> pydatetime option"
  isoformat :: "int \<Rightarrow> string"
  timedelta_float :: "td_unit \<Rightarrow> pyfloat \<Rightarrow> exn + int"

text \<open>What a file holds: a JSON document, or text that \<open>json.load\<close> cannot read (an
  empty file included).\<close>

datatype file_content = Json json | Garbled

text \<open>
  The state is the manager object (\<open>self\<close>: the three records in memory), the three
  files (\<open>None\<close>: there is no such file), and what has been done so far: the requests
  sent, the records handed to \<open>_save_file\<close>, the number of clock readings taken.
\<close>

record state =
  invite_code_data :: json
  refresh_token_data :: json
  auth_token_data :: json
  invite_file :: "file_content option"
  refresh_file :: "file_content option"
  auth_file :: "file_content option"
  http_log :: "request list"
  save_log :: "(fname \<times> pydict) list"
  clock_reads :: nat

definition datetime_now :: "env \<Rightarrow> state \<Rightarrow> int \<times> state" where
  "datetime_now e s = (clock e (clock_reads s), s\<lparr>clock_reads := Suc (clock_reads s)\<rparr>)"

text \<open>\<open>timedelta(days=v)\<close> and \<open>timedelta(seconds=v)\<close>: an int, a bool (an int in
  Python) or a float; anything else is a TypeError.\<close>

fun timedelta_of :: "env \<Rightarrow> td_unit \<Rightarrow> json \<Rightarrow> exn + int" where
  "timedelta_of e u (JInt n) = timedelta_int u n"
| "timedelta_of e u (JBool b) = timedelta_int u (if b then 1 else 0)"
| "timedelta_of e u (JFloat f) = timedelta_float e u f"
| "timedelta_of e u _ = Inl TypeError"

text \<open>\<open>datetime.fromisoformat(v)\<close>: a TypeError unless \<open>v\<close> is a string, a ValueError
  when the string is not a timestamp.\<close>

fun py_fromisoformat :: "env \<Rightarrow> json \<Rightarrow> exn + pydatetime" where
  "py_fromisoformat e (JStr x) =
     (case fromisoformat e x of None \<Rightarrow> Inl ValueError | Some dt \<Rightarrow> Inr dt)"
| "py_fromisoformat e _ = Inl TypeError"

section \<open>The manager\<close>

fun file_of :: "fname \<Rightarrow> state \<Rightarrow> file_content option" where
  "file_of INVITE_CODE_FILE s = invite_file s"
| "file_of REFRESH_TOKEN_FILE s = refresh_file s"
| "file_of AUTH_TOKEN_FILE s = auth_file s"

text \<open>\<open>_load_file\<close>: the empty dict for a file that is missing, empty or not JSON;
  otherwise what \<open>json.load\<close> returns, of whatever JSON type it is.\<close>

definition load_file :: "state \<Rightarrow> fname \<Rightarrow> json" where
  "load_file s filename =
     (case file_of filename s of
        None \<Rightarrow> JObj []
      | Some Garbled \<Rightarrow> JObj []
      | Some (Json j) \<Rightarrow> j)"

text \<open>\<open>__init__\<close> loads the three records.\<close>

definition init :: "state \<Rightarrow> state" where
  "init s =
     s\<lparr>invite_code_data := load_file s INVITE_CODE_FILE,
       refresh_token_data := load_file s REFRESH_TOKEN_FILE,
       auth_token_data := load_file s AUTH_TOKEN_FILE\<rparr>"

fun write_file :: "fname \<Rightarrow> pydict \<Rightarrow> state \<Rightarrow> state" where
  "write_file INVITE_CODE_FILE d s = s\<lparr>invite_file := Some (Json (JObj d))\<rparr>"
| "write_file REFRESH_TOKEN_FILE d s = s\<lparr>refresh_file := Some (Json (JObj d))\<rparr>"
| "write_file AUTH_TOKEN_FILE d s = s\<lparr>auth_file := Some (Json (JObj d))\<rparr>"

text \<open>\<open>_save_file\<close>: an IOError is caught and reported as \<open>False\<close>.\<close>

definition save_file :: "env \<Rightarrow> state \<Rightarrow> fname \<Rightarrow> pydict \<Rightarrow> bool \<times> state" where
  "save_file e s filename d =
     (let s1 = s\<lparr>save_log := save_log s @ [(filename, d)]\<rparr>
      in if can_write e filename then (True, write_file filename d s1) else (False, s1))"

text \<open>
  \<open>_has_not_expired\<close>. The first test, \<open>not data or 'expiration' not in data\<close>, stands
  before the \<open>try\<close>: what \<open>in\<close> raises there (on a number or a boolean that is not
  falsy) leaves the function. Inside the \<open>try\<close> the handler catches ValueError and
  TypeError, anything else would leave the function too. The clock is read after the
  parse, for the comparison.
\<close>

definition has_not_expired :: "env \<Rightarrow> state \<Rightarrow> json \<Rightarrow> (exn + bool) \<times> state" where
  "has_not_expired e s d =
     (if \<not> truthy d then (Inr False, s)
      else
        (case py_contains d ''expiration'' of
           Inl x \<Rightarrow> (Inl x, s)
         | Inr False \<Rightarrow> (Inr False, s)
         | Inr True \<Rightarrow>
        (case py_getitem d ''expiration'' of
           Inl x \<Rightarrow> (if x = ValueError \<or> x = TypeError then (Inr False, s) else (Inl x, s))
         | Inr v \<Rightarrow>
        (case py_fromisoformat e v of
           Inl x \<Rightarrow> (if x = ValueError \<or> x = TypeError then (Inr False, s) else (Inl x, s))
         | Inr expiration_date \<Rightarrow>
        (case datetime_now e s of
           (now, s1) \<Rightarrow> (Inr (now < utc_instant expiration_date), s1))))))"

text \<open>The condition \<open>data and self._has_not_expired(data)\<close>: the call is made only
  for a value that is not falsy.\<close>

definition and_has_not_expired :: "env \<Rightarrow> state \<Rightarrow> json \<Rightarrow> (exn + bool) \<times> state" where
  "and_has_not_expired e s d = (if \<not> truthy d then (Inr False, s) else has_not_expired e s d)"

text \<open>
  One entry of the status. \<open>exists\<close> is \<open>bool(data)\<close>; \<open>valid\<close> and \<open>expired\<close> are
  the values of \<open>data and \<dots>\<close>, which is \<open>data\<close> itself (the empty dict) when \<open>data\<close>
  is falsy and the boolean otherwise. Each of the two calls \<open>_has_not_expired\<close>.
\<close>

record status_entry =
  exists :: bool
  valid :: json
  expired :: json

record status =
  auth_token :: status_entry
  refresh_token :: status_entry
  invite_code :: status_entry

definition entry_status :: "env \<Rightarrow> state \<Rightarrow> json \<Rightarrow> (exn + status_entry) \<times> state" where
  "entry_status e s d =
     (case (if \<not> truthy d then (Inr d, s)
            else (case has_not_expired e s d of
                    (Inl x, s1) \<Rightarrow> (Inl x, s1)
                  | (Inr b, s1) \<Rightarrow> (Inr (JBool b), s1))) of
        (Inl x, s1) \<Rightarrow> (Inl x, s1)
      | (Inr v, s1) \<Rightarrow>
     (case (if \<not> truthy d then (Inr d, s1)
            else (case has_not_expired e s1 d of
                    (Inl x, s2) \<Rightarrow> (Inl x, s2)
                  | (Inr b, s2) \<Rightarrow> (Inr (JBool (\<not> b)), s2))) of
        (Inl x, s2) \<Rightarrow> (Inl x, s2)
      | (Inr x, s2) \<Rightarrow> (Inr \<lparr>exists = truthy d, valid = v, expired = x\<rparr>, s2)))"

definition check_token_status :: "env \<Rightarrow> state \<Rightarrow> (exn + status) \<times> state" where
  "check_token_status e s =
     (case entry_status e s (auth_token_data s) of
        (Inl x, s1) \<Rightarrow> (Inl x, s1)
      | (Inr a, s1) \<Rightarrow>
     (case entry_status e s1 (refresh_token_data s1) of
        (Inl x, s2) \<Rightarrow> (Inl x, s2)
      | (Inr r, s2) \<Rightarrow>
     (case entry_status e s2 (invite_code_data s2) of
        (Inl x, s3) \<Rightarrow> (Inl x, s3)
      | (Inr i, s3) \<Rightarrow>
          (Inr \<lparr>auth_token = a, refresh_token = r, invite_code = i\<rparr>, s3))))"

section \<open>Talking to the remote service\<close>

text \<open>\<open>requests.get(url, headers=\<dots>)\<close>: each call is logged; it returns the reply or
  raises. The library raises HTTPError from \<open>raise_for_status\<close> only, so what
  \<open>requests.get\<close> itself raises is another RequestException.\<close>

definition requests_get :: "env \<Rightarrow> state \<Rightarrow> endpoint \<Rightarrow> json \<Rightarrow> (exn + response) \<times> state" where
  "requests_get e s url hdr =
     (let s1 = s\<lparr>http_log := http_log s @ [(url, hdr)]\<rparr>
      in case remote e (http_log s) (url, hdr) of
           None \<Rightarrow> (Inl RequestException, s1)
         | Some r \<Rightarrow> (Inr r, s1))"

text \<open>\<open>response.raise_for_status()\<close> raises for the statuses 400 to 599.\<close>

definition raise_for_status :: "response \<Rightarrow> exn + unit" where
  "raise_for_status r =
     (if 400 \<le> status_code r \<and> status_code r < 600 then Inl (HTTPError (status_code r))
      else Inr ())"

definition response_json :: "response \<Rightarrow> exn + json" where
  "response_json r = (case json_body r of None \<Rightarrow> Inl JSONDecodeError | Some j \<Rightarrow> Inr j)"

text \<open>\<open>_get_token_details\<close>: the body of a reply with status 200; \<open>None\<close> for any
  other status and whenever the request or the decoding raises.\<close>

definition get_token_details :: "env \<Rightarrow> state \<Rightarrow> json \<Rightarrow> json \<times> state" where
  "get_token_details e s token =
     (case requests_get e s DETAILS_URL token of
        (Inl x, s1) \<Rightarrow> (JNull, s1)
      | (Inr r, s1) \<Rightarrow>
          (if status_code r = 200
           then (case response_json r of Inl x \<Rightarrow> (JNull, s1) | Inr j \<Rightarrow> (j, s1))
           else (JNull, s1)))"

text \<open>\<open>validate_token\<close> has no handler of its own: \<open>details.get\<close> on a value that is
  not a dict leaves it as an AttributeError.\<close>

definition validate_token :: "env \<Rightarrow> state \<Rightarrow> json \<Rightarrow> (exn + bool) \<times> state" where
  "validate_token e s token =
     (case get_token_details e s token of
        (details, s1) \<Rightarrow>
          (if truthy details
           then (case py_get details ''validToken'' (JBool False) of
                   Inl x \<Rightarrow> (Inl x, s1)
                 | Inr v \<Rightarrow> (Inr (truthy v), s1))
           else (Inr False, s1)))"

section \<open>Setup with an invite code\<close>

text \<open>\<open>if os.path.exists(INVITE_CODE_FILE): os.remove(INVITE_CODE_FILE)\<close>\<close>

definition remove_invite :: "env \<Rightarrow> state \<Rightarrow> exn + state" where
  "remove_invite e s =
     (if invite_file s \<noteq> None
      then (if can_remove e INVITE_CODE_FILE then Inr (s\<lparr>invite_file := None\<rparr>) else Inl OSError)
      else Inr s)"

text \<open>The \<open>try\<close> block of \<open>setup_with_invite_code\<close>, statement by statement.\<close>

definition setup_try :: "env \<Rightarrow> state \<Rightarrow> json \<Rightarrow> json \<Rightarrow> (exn + bool) \<times> state" where
  "setup_try e s invite expiration_days =
     (case requests_get e s SETUP_URL invite of
        (Inl x, s1) \<Rightarrow> (Inl x, s1)
      | (Inr r, s1) \<Rightarrow>
     (case raise_for_status r of Inl x \<Rightarrow> (Inl x, s1) | Inr _ \<Rightarrow>
     (case response_json r of Inl x \<Rightarrow> (Inl x, s1) | Inr token_data \<Rightarrow>
     (case py_get token_data ''expiresIn'' (JInt 86400) of
        Inl x \<Rightarrow> (Inl x, s1) | Inr expires_in \<Rightarrow>
     (case datetime_now e s1 of (current_utc, s2) \<Rightarrow>
     (case timedelta_of e Seconds expires_in of Inl x \<Rightarrow> (Inl x, s2) | Inr d1 \<Rightarrow>
     (case datetime_add current_utc d1 of Inl x \<Rightarrow> (Inl x, s2) | Inr auth_expiration \<Rightarrow>
     (case timedelta_of e Days expiration_days of Inl x \<Rightarrow> (Inl x, s2) | Inr d2 \<Rightarrow>
     (case datetime_add current_utc d2 of Inl x \<Rightarrow> (Inl x, s2) | Inr refresh_expiration \<Rightarrow>
     (case py_getitem token_data ''token'' of Inl x \<Rightarrow> (Inl x, s2) | Inr tok \<Rightarrow>
     (case save_file e s2 AUTH_TOKEN_FILE
             [(''access_token'', tok),
              (''created'', JStr (isoformat e current_utc)),
              (''expiration'', JStr (isoformat e auth_expiration))] of (_, s3) \<Rightarrow>
     (case py_getitem token_data ''refreshToken'' of Inl x \<Rightarrow> (Inl x, s3) | Inr rtok \<Rightarrow>
     (case save_file e s3 REFRESH_TOKEN_FILE
             [(''refresh_token'', rtok),
              (''created'', JStr (isoformat e current_utc)),
              (''expiration'', JStr (isoformat e refresh_expiration))] of (_, s4) \<Rightarrow>
     (case remove_invite e s4 of Inl x \<Rightarrow> (Inl x, s4) | Inr s5 \<Rightarrow>
        (Inr True, s5)))))))))))))))"

text \<open>\<open>setup_with_invite_code\<close>: \<open>except Exception\<close> turns whatever the block raises
  into \<open>False\<close>; what the block did before it raised stays done.\<close>

definition setup_with_invite_code :: "env \<Rightarrow> state \<Rightarrow> json \<Rightarrow> json \<Rightarrow> (exn + bool) \<times> state" where
  "setup_with_invite_code e s invite expiration_days =
     (if \<not> truthy invite then (Inr False, s)
      else (case setup_try e s invite expiration_days of
              (Inl x, s1) \<Rightarrow> (Inr False, s1)
            | (Inr b, s1) \<Rightarrow> (Inr b, s1)))"

text \<open>The default of the parameter \<open>expiration_days\<close>.\<close>

definition default_expiration_days :: json where
  "default_expiration_days = JInt 30"

section \<open>Refreshing the access token\<close>

text \<open>The \<open>try\<close> block of \<open>refresh_auth_token\<close>.\<close>

definition refresh_try :: "env \<Rightarrow> state \<Rightarrow> json \<Rightarrow> (exn + bool) \<times> state" where
  "refresh_try e s refresh_tok =
     (case requests_get e s TOKEN_URL refresh_tok of
        (Inl x, s1) \<Rightarrow> (Inl x, s1)
      | (Inr r, s1) \<Rightarrow>
     (case raise_for_status r of Inl x \<Rightarrow> (Inl x, s1) | Inr _ \<Rightarrow>
     (case response_json r of Inl x \<Rightarrow> (Inl x, s1) | Inr token_data \<Rightarrow>
     (case py_contains token_data ''token'' of
        Inl x \<Rightarrow> (Inl x, s1)
      | Inr False \<Rightarrow> (Inr False, s1)
      | Inr True \<Rightarrow>
     (case py_get token_data ''expiresIn'' (JInt 86400) of
        Inl x \<Rightarrow> (Inl x, s1) | Inr expires_in \<Rightarrow>
     (case datetime_now e s1 of (current_utc, s2) \<Rightarrow>
     (case timedelta_of e Seconds expires_in of Inl x \<Rightarrow> (Inl x, s2) | Inr d1 \<Rightarrow>
     (case datetime_add current_utc d1 of Inl x \<Rightarrow> (Inl x, s2) | Inr expiration \<Rightarrow>
     (case py_getitem token_data ''token'' of Inl x \<Rightarrow> (Inl x, s2) | Inr tok \<Rightarrow>
     (case save_file e s2 AUTH_TOKEN_FILE
             [(''access_token'', tok),
              (''created'', JStr (isoformat e current_utc)),
              (''expiration'', JStr (isoformat e expiration))] of (_, s3) \<Rightarrow>
     (case validate_token e
             (s3\<lparr>auth_token_data :=
                   JObj [(''access_token'', tok),
                         (''created'', JStr (isoformat e current_utc)),
                         (''expiration'', JStr (isoformat e expiration))]\<rparr>) tok of
        (Inl x, s4) \<Rightarrow> (Inl x, s4)
      | (Inr b, s4) \<Rightarrow> (Inr b, s4))))))))))))"

text \<open>\<open>refresh_auth_token\<close>: the test of the refresh record and the reading of its
  \<open>refresh_token\<close> stand before the \<open>try\<close>; both handlers of the \<open>try\<close> (\<open>HTTPError\<close>,
  then \<open>Exception\<close>) return \<open>False\<close>.\<close>

definition refresh_auth_token :: "env \<Rightarrow> state \<Rightarrow> (exn + bool) \<times> state" where
  "refresh_auth_token e s =
     (if \<not> truthy (refresh_token_data s) then (Inr False, s)
      else
        (case has_not_expired e s (refresh_token_data s) of
           (Inl x, s1) \<Rightarrow> (Inl x, s1)
         | (Inr False, s1) \<Rightarrow> (Inr False, s1)
         | (Inr True, s1) \<Rightarrow>
        (case py_get (refresh_token_data s1) ''refresh_token'' JNull of
           Inl x \<Rightarrow> (Inl x, s1)
         | Inr refresh_tok \<Rightarrow>
             (if \<not> truthy refresh_tok then (Inr False, s1)
              else (case refresh_try e s1 refresh_tok of
                      (Inl x, s2) \<Rightarrow> (Inr False, s2)
                    | (Inr b, s2) \<Rightarrow> (Inr b, s2))))))"

section \<open>Getting a token\<close>

definition get_valid_token :: "env \<Rightarrow> state \<Rightarrow> (exn + json) \<times> state" where
  "get_valid_token e s =
     (case and_has_not_expired e s (auth_token_data s) of
        (Inl x, s1) \<Rightarrow> (Inl x, s1)
      | (Inr True, s1) \<Rightarrow>
          (case py_get (auth_token_data s1) ''access_token'' JNull of
             Inl x \<Rightarrow> (Inl x, s1)
           | Inr v \<Rightarrow> (Inr v, s1))
      | (Inr False, s1) \<Rightarrow>
     (case and_has_not_expired e s1 (refresh_token_data s1) of
        (Inl x, s2) \<Rightarrow> (Inl x, s2)
      | (Inr True, s2) \<Rightarrow>
          (case refresh_auth_token e s2 of
             (Inl x, s3) \<Rightarrow> (Inl x, s3)
           | (Inr True, s3) \<Rightarrow>
               (case py_get (auth_token_data s3) ''access_token'' JNull of
                  Inl x \<Rightarrow> (Inl x, s3)
                | Inr v \<Rightarrow> (Inr v, s3))
           | (Inr False, s3) \<Rightarrow> (Inr JNull, s3))
      | (Inr False, s2) \<Rightarrow> (Inr JNull, s2)))"

section \<open>The specification's validity predicate\<close>

text \<open>
  \<open>isValid\<close> as the specification words it: false for an absent record and for one
  without \<open>expiration\<close>; otherwise the expiration is parsed, a timestamp without zone is
  taken as UTC, and the record is valid when the current instant is before it; an
  expiration that does not parse makes the record invalid. The specification knows
  records only: a value that is not a dict has no \<open>expiration\<close> field and is not valid.
\<close>

definition isValid :: "env \<Rightarrow> int \<Rightarrow> json \<Rightarrow> bool" where
  "isValid e now d =
     (case d of
        JObj kvs \<Rightarrow>
          (case map_of kvs ''expiration'' of
             None \<Rightarrow> False
           | Some (JStr x) \<Rightarrow>
               (case fromisoformat e x of
                  None \<Rightarrow> False
                | Some dt \<Rightarrow>
                    now < (case utcoffset dt of None \<Rightarrow> wall dt | Some off \<Rightarrow> wall dt - off))
           | Some _ \<Rightarrow> False)
      | _ \<Rightarrow> False)"

text \<open>Whether the expiration of a record parses: then, and only then, the check reads
  the clock.\<close>

definition parses :: "env \<Rightarrow> json \<Rightarrow> bool" where
  "parses e d =
     (case d of
        JObj kvs \<Rightarrow>
          (case map_of kvs ''expiration'' of
             Some (JStr x) \<Rightarrow> fromisoformat e x \<noteq> None
           | _ \<Rightarrow> False)
      | _ \<Rightarrow> False)"

text \<open>The values on which the membership test of the check raises: a number or a
  boolean that is not falsy.\<close>

fun not_iterable :: "json \<Rightarrow> bool" where
  "not_iterable JNull = True"
| "not_iterable (JBool b) = True"
| "not_iterable (JInt n) = True"
| "not_iterable (JFloat f) = True"
| "not_iterable (JStr x) = False"
| "not_iterable (JArr xs) = False"
| "not_iterable (JObj kvs) = False"

definition breaks_check :: "json \<Rightarrow> bool" where
  "breaks_check d = (truthy d \<and> not_iterable d)"

text \<open>The instant the next reading of the clock gives, and the state after one reading.\<close>

definition next_now :: "env \<Rightarrow> state \<Rightarrow> int" where
  "next_now e s = clock e (clock_reads s)"

definition tick :: "state \<Rightarrow> state" where
  "tick s = s\<lparr>clock_reads := Suc (clock_reads s)\<rparr>"

definition after_check :: "env \<Rightarrow> state \<Rightarrow> json \<Rightarrow> state" where
  "after_check e s d = (if parses e d then tick s else s)"

section \<open>Concrete environments and states\<close>

text \<open>
  The examples run in the following setting. The library functions are tables over the
  timestamps the examples use: 2020-01-01 (written without zone) and 2030-01-01 are
  parsed, four instants of November and December 2026 are printed. No example uses a
  float.
\<close>

definition past_text :: string where
  "past_text = ''2020-01-01T00:00:00''"

definition future_text :: string where
  "future_text = ''2030-01-01T00:00:00+00:00''"

definition demo_fromisoformat :: "string \<Rightarrow> pydatetime option" where
  "demo_fromisoformat x =
     (if x = ''2030-01-01T00:00:00+00:00''
      then Some \<lparr>wall = 64029052800000000, utcoffset = Some 0\<rparr>
      else if x = ''2020-01-01T00:00:00''
      then Some \<lparr>wall = 63713433600000000, utcoffset = None\<rparr>
      else None)"

definition demo_isoformat :: "int \<Rightarrow> string" where
  "demo_isoformat t =
     (if t = 63929347200000000 then ''2026-11-04T00:00:00+00:00''
      else if t = 63929350800000000 then ''2026-11-04T01:00:00+00:00''
      else if t = 63929433600000000 then ''2026-11-05T00:00:00+00:00''
      else if t = 63931939200000000 then ''2026-12-04T00:00:00+00:00''
      else ''unlisted'')"

definition demo_env :: "(nat \<Rightarrow> int) \<Rightarrow> (request \<Rightarrow> response option) \<Rightarrow> (fname \<Rightarrow> bool) \<Rightarrow> env" where
  "demo_env clk srv wr =
     \<lparr>clock = clk, remote = (\<lambda>h. srv), can_write = wr, can_remove = (\<lambda>f. True),
      fromisoformat = demo_fromisoformat, isoformat = demo_isoformat,
      timedelta_float = (\<lambda>u f. Inl OverflowError)\<rparr>"

text \<open>A clock that stands at 2026-11-04T00:00:00Z, and one that shows the last
  microsecond before 2030-01-01T00:00:00Z at its first reading and advances by a
  microsecond from reading to reading.\<close>

definition clock_2026 :: "nat \<Rightarrow> int" where
  "clock_2026 k = 63929347200000000"

definition clock_turning :: "nat \<Rightarrow> int" where
  "clock_turning k = 64029052799999999 + int k"

text \<open>A remote service that answers each endpoint with a fixed reply.\<close>

definition server :: "response option \<Rightarrow> response option \<Rightarrow> response option \<Rightarrow> request \<Rightarrow> response option" where
  "server setup_reply token_reply details_reply r =
     (case fst r of
        SETUP_URL \<Rightarrow> setup_reply
      | TOKEN_URL \<Rightarrow> token_reply
      | DETAILS_URL \<Rightarrow> details_reply)"

definition reply :: "int \<Rightarrow> json \<Rightarrow> response option" where
  "reply st j = Some \<lparr>status_code = st, json_body = Some j\<rparr>"

definition writable :: "fname \<Rightarrow> bool" where
  "writable f = True"

definition read_only :: "fname \<Rightarrow> bool" where
  "read_only f = False"

text \<open>The three files before a manager is built, nothing done yet.\<close>

definition disk :: "file_content option \<Rightarrow> file_content option \<Rightarrow> file_content option \<Rightarrow> state" where
  "disk i r a =
     \<lparr>invite_code_data = JObj [], refresh_token_data = JObj [], auth_token_data = JObj [],
      invite_file = i, refresh_file = r, auth_file = a,
      http_log = [], save_log = [], clock_reads = 0\<rparr>"

text \<open>A manager as \<open>__init__\<close> leaves it when each file holds the given record, the
  empty record standing for a file that is not there.\<close>

definition manager :: "pydict \<Rightarrow> pydict \<Rightarrow> pydict \<Rightarrow> state" where
  "manager i r a =
     init (disk (if i = [] then None else Some (Json (JObj i)))
                (if r = [] then None else Some (Json (JObj r)))
                (if a = [] then None else Some (Json (JObj a))))"

text \<open>A manager built when one of the token files holds the JSON document \<open>5\<close>.\<close>

definition manager_access_5 :: state where
  "manager_access_5 = init (disk None None (Some (Json (JInt 5))))"

definition manager_refresh_5 :: state where
  "manager_refresh_5 = init (disk None (Some (Json (JInt 5))) None)"

definition access_rec :: "string \<Rightarrow> pydict" where
  "access_rec expiry =
     [(''access_token'', JStr ''A0''), (''created'', JStr ''2019-12-31T00:00:00+00:00''),
      (''expiration'', JStr expiry)]"

definition refresh_rec :: "string \<Rightarrow> pydict" where
  "refresh_rec expiry =
     [(''refresh_token'', JStr ''R0''), (''created'', JStr ''2019-12-31T00:00:00+00:00''),
      (''expiration'', JStr expiry)]"

definition invite_rec :: pydict where
  "invite_rec = [(''invite_code'', JStr ''I0''), (''expiration'', JStr ''2030-01-01T00:00:00+00:00'')]"

definition setup_body :: json where
  "setup_body = JObj [(''token'', JStr ''A1''), (''refreshToken'', JStr ''R1''), (''expiresIn'', JInt 3600)]"

definition token_body :: json where
  "token_body = JObj [(''token'', JStr ''A2''), (''expiresIn'', JInt 3600)]"

definition details_body :: "bool \<Rightarrow> json" where
  "details_body b = JObj [(''validToken'', JBool b)]"

text \<open>The service at its best: every endpoint answers 200 with the expected body.\<close>

definition env_ok :: env where
  "env_ok =
     demo_env clock_2026
       (server (reply 200 setup_body) (reply 200 token_body) (reply 200 (details_body True)))
       writable"

section \<open>The validity check\<close>

lemma breaks_check_not_valid: "breaks_check d \<Longrightarrow> \<not> isValid e t d \<and> \<not> parses e d"
  by (cases d) (simp_all add: breaks_check_def isValid_def parses_def)

lemma isValid_object: "isValid e t d \<Longrightarrow> \<exists>kvs. d = JObj kvs \<and> kvs \<noteq> []"
  by (cases d) (auto simp: isValid_def)

lemma isValid_parses: "isValid e t d \<Longrightarrow> parses e d"
  by (cases d) (auto simp: isValid_def parses_def split: option.splits json.splits)

lemma has_not_expired_eq:
  "has_not_expired e s d =
     (if breaks_check d then (Inl TypeError, s)
      else (Inr (isValid e (next_now e s) d), after_check e s d))"
proof (cases d)
  case (JObj kvs)
  then show ?thesis
    by (cases "map_of kvs ''expiration''")
       (auto simp: has_not_expired_def breaks_check_def isValid_def after_check_def parses_def
          next_now_def tick_def datetime_now_def utc_instant_def
          split: json.splits option.splits)
qed (auto simp: has_not_expired_def breaks_check_def isValid_def after_check_def parses_def
       split: pyfloat.splits bool.splits)

lemma and_has_not_expired_eq:
  "and_has_not_expired e s d =
     (if breaks_check d then (Inl TypeError, s)
      else (Inr (isValid e (next_now e s) d), after_check e s d))"
  by (cases d)
     (auto simp: and_has_not_expired_def has_not_expired_eq breaks_check_def isValid_def
        after_check_def parses_def split: pyfloat.splits)

lemma after_check_fields:
  "invite_code_data (after_check e s d) = invite_code_data s"
  "refresh_token_data (after_check e s d) = refresh_token_data s"
  "auth_token_data (after_check e s d) = auth_token_data s"
  "invite_file (after_check e s d) = invite_file s"
  "refresh_file (after_check e s d) = refresh_file s"
  "auth_file (after_check e s d) = auth_file s"
  "http_log (after_check e s d) = http_log s"
  "save_log (after_check e s d) = save_log s"
  by (simp_all add: after_check_def tick_def)

lemma tick_fields:
  "invite_code_data (tick s) = invite_code_data s"
  "refresh_token_data (tick s) = refresh_token_data s"
  "auth_token_data (tick s) = auth_token_data s"
  "invite_file (tick s) = invite_file s"
  "refresh_file (tick s) = refresh_file s"
  "auth_file (tick s) = auth_file s"
  "http_log (tick s) = http_log s"
  "save_log (tick s) = save_log s"
  "clock_reads (tick s) = Suc (clock_reads s)"
  by (simp_all add: tick_def)

lemma get_token_details_state:
  "snd (get_token_details e s token) = s\<lparr>http_log := http_log s @ [(DETAILS_URL, token)]\<rparr>"
  by (simp add: get_token_details_def requests_get_def Let_def split: option.splits sum.splits)

lemma validate_token_state:
  "snd (validate_token e s token) = s\<lparr>http_log := http_log s @ [(DETAILS_URL, token)]\<rparr>"
proof (cases "get_token_details e s token")
  case (Pair details s1)
  with get_token_details_state [of e s token]
  have "s1 = s\<lparr>http_log := http_log s @ [(DETAILS_URL, token)]\<rparr>" by simp
  with Pair show ?thesis
    by (simp add: validate_token_def split: sum.splits)
qed



lemma case_sum_prod_id:
  "(case p of (Inl x, t) \<Rightarrow> (Inl x, t) | (Inr b, t) \<Rightarrow> (Inr b, t)) = p"
  by (cases p) (auto split: sum.splits)

lemma py_get_Inr: "py_get j k dflt = Inr v \<Longrightarrow> \<exists>kvs. j = JObj kvs"
  by (cases j) simp_all

lemma py_get_object: "py_get (JObj kvs) k JNull = Inr (dict_get (JObj kvs) k)"
  by (simp add: dict_get_def)

lemma refresh_auth_token_raises:
  "breaks_check (refresh_token_data s) \<Longrightarrow> refresh_auth_token e s = (Inl TypeError, s)"
  by (simp add: refresh_auth_token_def has_not_expired_eq) (simp add: breaks_check_def)

lemma refresh_auth_token_invalid:
  "\<not> breaks_check (refresh_token_data s) \<Longrightarrow>
   \<not> isValid e (next_now e s) (refresh_token_data s) \<Longrightarrow>
   refresh_auth_token e s = (Inr False, after_check e s (refresh_token_data s))"
  using and_has_not_expired_eq [of e s "refresh_token_data s"]
  by (auto simp: refresh_auth_token_def has_not_expired_eq and_has_not_expired_def
        split: if_splits)

lemma refresh_auth_token_valid:
  "isValid e (next_now e s) (refresh_token_data s) \<Longrightarrow>
   refresh_auth_token e s =
     (if \<not> truthy (dict_get (refresh_token_data s) ''refresh_token'') then (Inr False, tick s)
      else (case refresh_try e (tick s) (dict_get (refresh_token_data s) ''refresh_token'') of
              (Inl x, s2) \<Rightarrow> (Inr False, s2)
            | (Inr b, s2) \<Rightarrow> (Inr b, s2)))"
proof -
  assume v: "isValid e (next_now e s) (refresh_token_data s)"
  then obtain kvs where k: "refresh_token_data s = JObj kvs" "kvs \<noteq> []"
    by (auto dest: isValid_object)
  from v k have "has_not_expired e s (JObj kvs) = (Inr True, tick s)"
    using isValid_parses [OF v]
    by (simp add: has_not_expired_eq breaks_check_def after_check_def)
  with k show ?thesis
    by (simp add: refresh_auth_token_def tick_fields dict_get_def)
qed

lemma refresh_auth_token_total:
  "\<not> breaks_check (refresh_token_data s) \<Longrightarrow> \<exists>b. fst (refresh_auth_token e s) = Inr b"
proof (cases "isValid e (next_now e s) (refresh_token_data s)")
  case True
  then show ?thesis
    by (cases "refresh_try e (tick s) (dict_get (refresh_token_data s) ''refresh_token'')")
       (auto simp: refresh_auth_token_valid split: sum.splits)
next
  case False
  assume "\<not> breaks_check (refresh_token_data s)"
  with False show ?thesis by (auto simp: refresh_auth_token_invalid)
qed


text \<open>
  On a record that is a dict the check never raises; it is the specification's \<open>isValid\<close>
  at the instant the clock shows. It is \<open>False\<close>, with the clock not even read, for an
  empty record, for a record without \<open>expiration\<close> and for an expiration that does not
  parse (a value that is not a string, or a string that is not a timestamp). For an
  expiration that parses it reads the clock once and says whether that instant is
  before the expiration, a timestamp without zone being taken as UTC and one with a
  zone being moved by the offset of the zone. A string or a list in the place of the
  record is not valid either.
\<close>

lemma has_not_expired_record:
  "has_not_expired e s (JObj d) = (Inr (isValid e (next_now e s) (JObj d)), after_check e s (JObj d)) \<and>
   (d = [] \<or> map_of d ''expiration'' = None \<longrightarrow> has_not_expired e s (JObj d) = (Inr False, s)) \<and>
   (\<forall>v x. map_of d ''expiration'' = Some v \<and> py_fromisoformat e v = Inl x \<longrightarrow>
      has_not_expired e s (JObj d) = (Inr False, s)) \<and>
   (\<forall>x w. map_of d ''expiration'' = Some (JStr x) \<and>
      fromisoformat e x = Some \<lparr>wall = w, utcoffset = None\<rparr> \<longrightarrow>
      has_not_expired e s (JObj d) = (Inr (clock e (clock_reads s) < w), tick s)) \<and>
   (\<forall>x w off. map_of d ''expiration'' = Some (JStr x) \<and>
      fromisoformat e x = Some \<lparr>wall = w, utcoffset = Some off\<rparr> \<longrightarrow>
      has_not_expired e s (JObj d) = (Inr (clock e (clock_reads s) < w - off), tick s))"
proof (intro conjI allI impI)
  show "has_not_expired e s (JObj d) =
      (Inr (isValid e (next_now e s) (JObj d)), after_check e s (JObj d))"
    by (simp add: has_not_expired_eq breaks_check_def)
next
  assume "d = [] \<or> map_of d ''expiration'' = None"
  then show "has_not_expired e s (JObj d) = (Inr False, s)"
    by (auto simp: has_not_expired_def)
next
  fix v x
  assume "map_of d ''expiration'' = Some v \<and> py_fromisoformat e v = Inl x"
  then show "has_not_expired e s (JObj d) = (Inr False, s)"
    by (cases v) (auto simp: has_not_expired_eq breaks_check_def isValid_def after_check_def
          parses_def split: option.splits)
next
  fix x w
  assume "map_of d ''expiration'' = Some (JStr x) \<and>
    fromisoformat e x = Some \<lparr>wall = w, utcoffset = None\<rparr>"
  then show "has_not_expired e s (JObj d) = (Inr (clock e (clock_reads s) < w), tick s)"
    by (auto simp: has_not_expired_eq breaks_check_def isValid_def after_check_def parses_def
          next_now_def)
next
  fix x w off
  assume "map_of d ''expiration'' = Some (JStr x) \<and>
    fromisoformat e x = Some \<lparr>wall = w, utcoffset = Some off\<rparr>"
  then show "has_not_expired e s (JObj d) = (Inr (clock e (clock_reads s) < w - off), tick s)"
    by (auto simp: has_not_expired_eq breaks_check_def isValid_def after_check_def parses_def
          next_now_def)
qed

lemma has_not_expired_string_or_list:
  "has_not_expired e s (JStr x) = (Inr False, s) \<and> has_not_expired e s (JArr xs) = (Inr False, s)"
  by (simp add: has_not_expired_eq breaks_check_def isValid_def after_check_def parses_def)

lemma has_not_expired_falsy: "\<not> truthy d \<Longrightarrow> has_not_expired e s d = (Inr False, s)"
  by (simp add: has_not_expired_def)

lemma has_not_expired_examples:
  "has_not_expired (demo_env clock_2026 (server None None None) writable) (manager [] [] [])
     (JObj (access_rec future_text)) = (Inr True, tick (manager [] [] [])) \<and>
   has_not_expired (demo_env clock_2026 (server None None None) writable) (manager [] [] [])
     (JObj (access_rec past_text)) = (Inr False, tick (manager [] [] [])) \<and>
   has_not_expired (demo_env clock_2026 (server None None None) writable) (manager [] [] [])
     (JObj (access_rec ''tomorrow'')) = (Inr False, manager [] [] []) \<and>
   has_not_expired (demo_env clock_2026 (server None None None) writable) (manager [] [] [])
     (JObj [(''access_token'', JStr ''A0'')]) = (Inr False, manager [] [] []) \<and>
   has_not_expired (demo_env clock_2026 (server None None None) writable) (manager [] [] [])
     (JObj []) = (Inr False, manager [] [] [])"
  by (simp add: has_not_expired_eq breaks_check_def demo_env_def demo_fromisoformat_def
        access_rec_def future_text_def past_text_def clock_2026_def manager_def init_def
        disk_def load_file_def isValid_def next_now_def after_check_def parses_def tick_def)

text \<open>
  C4. The access file holds the JSON document \<open>5\<close>. \<open>_load_file\<close> returns what
  \<open>json.load\<close> read, so the access record of the manager is the number 5. On it
  \<open>_has_not_expired\<close> raises TypeError: \<open>'expiration' not in data\<close> is evaluated before
  the \<open>try\<close>. The claim has \<open>isValid\<close> return false for a record without expiration and
  never pass an error on.
\<close>

theorem has_not_expired_of_number:
  "auth_token_data manager_access_5 = JInt 5 \<and>
   \<not> isValid env_ok (next_now env_ok manager_access_5) (auth_token_data manager_access_5) \<and>
   has_not_expired env_ok manager_access_5 (auth_token_data manager_access_5) =
     (Inl TypeError, manager_access_5)"
  by (simp add: manager_access_5_def init_def disk_def load_file_def has_not_expired_def
        isValid_def)

section \<open>The status projection\<close>

lemma entry_status_eq:
  "entry_status e s d =
     (if \<not> truthy d then (Inr \<lparr>exists = False, valid = d, expired = d\<rparr>, s)
      else if breaks_check d then (Inl TypeError, s)
      else (Inr \<lparr>exists = True,
                 valid = JBool (isValid e (next_now e s) d),
                 expired = JBool (\<not> isValid e (next_now e (after_check e s d)) d)\<rparr>,
            after_check e (after_check e s d) d))"
  by (auto simp: entry_status_def has_not_expired_eq breaks_check_def)

lemma entry_status_total: "\<not> breaks_check d \<Longrightarrow> \<exists>en. fst (entry_status e s d) = Inr en"
  by (simp add: entry_status_eq)

lemma entry_status_frame:
  "snd (entry_status e s d) = s\<lparr>clock_reads := clock_reads (snd (entry_status e s d))\<rparr>"
  by (simp add: entry_status_eq after_check_def tick_def)

lemma entry_status_absent:
  "entry_status e s (JObj []) = (Inr \<lparr>exists = False, valid = JObj [], expired = JObj []\<rparr>, s)"
  by (simp add: entry_status_eq)

lemma entry_status_same_reading:
  assumes "isValid e (next_now e s) d = isValid e (next_now e (after_check e s d)) d"
    and "entry_status e s d = (Inr en, s')"
  shows "truthy (expired en) = (exists en \<and> \<not> truthy (valid en))"
  using assms by (auto simp: entry_status_eq split: if_splits)

lemma check_token_status_steps:
  assumes "\<not> breaks_check (auth_token_data s)" "\<not> breaks_check (refresh_token_data s)"
    "\<not> breaks_check (invite_code_data s)"
  shows "\<exists>a r i s1 s2 s3.
     entry_status e s (auth_token_data s) = (Inr a, s1) \<and>
     entry_status e s1 (refresh_token_data s) = (Inr r, s2) \<and>
     entry_status e s2 (invite_code_data s) = (Inr i, s3) \<and>
     check_token_status e s = (Inr \<lparr>auth_token = a, refresh_token = r, invite_code = i\<rparr>, s3)"
  using assms by (simp add: check_token_status_def entry_status_eq after_check_fields)

lemma check_token_status_frame:
  "snd (check_token_status e s) = s\<lparr>clock_reads := clock_reads (snd (check_token_status e s))\<rparr>"
  by (simp add: check_token_status_def entry_status_eq after_check_def tick_def)

text \<open>
  C5. The status computes \<open>valid\<close> and \<open>expired\<close> of a record with two calls of the
  validity check, each with its own reading of the clock. For a record that expires
  between the two readings the status says both valid and expired, so that
  \<open>expired = exists and not valid\<close> fails there.
\<close>

theorem check_token_status_between_readings:
  "fst (check_token_status (demo_env clock_turning (server None None None) writable)
          (manager [] [] (access_rec future_text))) =
   Inr \<lparr>auth_token = \<lparr>exists = True, valid = JBool True, expired = JBool True\<rparr>,
        refresh_token = \<lparr>exists = False, valid = JObj [], expired = JObj []\<rparr>,
        invite_code = \<lparr>exists = False, valid = JObj [], expired = JObj []\<rparr>\<rparr>"
  by (simp add: check_token_status_def entry_status_eq breaks_check_def isValid_def next_now_def
        after_check_def parses_def tick_def demo_env_def demo_fromisoformat_def clock_turning_def
        manager_def init_def disk_def load_file_def access_rec_def future_text_def)

section \<open>What a refresh does\<close>

lemma py_getitem_obj:
  "py_getitem (JObj kvs) k = Inr v \<longleftrightarrow> map_of kvs k = Some v"
  by (simp split: option.splits)

lemma refresh_try_True:
  assumes "refresh_try e s rt = (Inr True, s')"
  shows "\<exists>r kvs tok d ex.
     remote e (http_log s) (TOKEN_URL, rt) = Some r \<and>
     json_body r = Some (JObj kvs) \<and> map_of kvs ''token'' = Some tok \<and>
     timedelta_of e Seconds (case map_of kvs ''expiresIn'' of None \<Rightarrow> JInt 86400 | Some v \<Rightarrow> v) = Inr d \<and>
     datetime_add (next_now e s) d = Inr ex \<and>
     auth_token_data s' =
       JObj [(''access_token'', tok), (''created'', JStr (isoformat e (next_now e s))),
             (''expiration'', JStr (isoformat e ex))] \<and>
     save_log s' = save_log s @
       [(AUTH_TOKEN_FILE,
         [(''access_token'', tok), (''created'', JStr (isoformat e (next_now e s))),
          (''expiration'', JStr (isoformat e ex))])] \<and>
     (can_write e AUTH_TOKEN_FILE \<longrightarrow> auth_file s' = Some (Json (auth_token_data s'))) \<and>
     http_log s' = http_log s @ [(TOKEN_URL, rt), (DETAILS_URL, tok)]"
proof -
  from assms obtain r where r: "remote e (http_log s) (TOKEN_URL, rt) = Some r"
    by (auto simp: refresh_try_def requests_get_def Let_def split: option.splits)
  from assms r obtain j where j: "json_body r = Some j" and st: "raise_for_status r = Inr ()"
    by (auto simp: refresh_try_def requests_get_def Let_def response_json_def
          split: option.splits sum.splits)
  from assms r j st obtain v where "py_get j ''expiresIn'' (JInt 86400) = Inr v"
    by (auto simp: refresh_try_def requests_get_def Let_def response_json_def
          split: sum.splits bool.splits)
  then obtain kvs where kvs: "j = JObj kvs" by (auto dest: py_get_Inr)
  from assms r j st kvs obtain tok where tok: "map_of kvs ''token'' = Some tok"
    by (auto simp: refresh_try_def requests_get_def Let_def response_json_def
          split: sum.splits bool.splits)
  let ?ei = "case map_of kvs ''expiresIn'' of None \<Rightarrow> JInt 86400 | Some v \<Rightarrow> v"
  from assms r j st kvs tok obtain d where d: "timedelta_of e Seconds ?ei = Inr d"
    by (auto simp: refresh_try_def requests_get_def Let_def response_json_def datetime_now_def
          split: sum.splits)
  from assms r j st kvs tok d obtain ex where ex: "datetime_add (next_now e s) d = Inr ex"
    by (auto simp: refresh_try_def requests_get_def Let_def response_json_def datetime_now_def
          next_now_def split: sum.splits)
  let ?rec = "[(''access_token'', tok), (''created'', JStr (isoformat e (next_now e s))),
        (''expiration'', JStr (isoformat e ex))]"
  let ?s3 = "(if can_write e AUTH_TOKEN_FILE then
      s\<lparr>http_log := http_log s @ [(TOKEN_URL, rt)], clock_reads := Suc (clock_reads s),
        save_log := save_log s @ [(AUTH_TOKEN_FILE, ?rec)], auth_file := Some (Json (JObj ?rec)),
        auth_token_data := JObj ?rec\<rparr>
     else s\<lparr>http_log := http_log s @ [(TOKEN_URL, rt)], clock_reads := Suc (clock_reads s),
        save_log := save_log s @ [(AUTH_TOKEN_FILE, ?rec)], auth_token_data := JObj ?rec\<rparr>)"
  from assms r j st kvs tok d ex
  have "validate_token e ?s3 tok = (Inr True, s')"
    by (cases "validate_token e ?s3 tok")
       (auto simp: refresh_try_def requests_get_def Let_def response_json_def datetime_now_def
          next_now_def save_file_def case_sum_prod_id split: if_splits)
  with validate_token_state [of e ?s3 tok]
  have "s' = ?s3\<lparr>http_log := http_log ?s3 @ [(DETAILS_URL, tok)]\<rparr>" by simp
  with r j kvs tok d ex show ?thesis
    by (auto split: if_splits)
qed


lemma get_token_details_fst:
  "http_log s = http_log s' \<Longrightarrow>
   fst (get_token_details e s token) = fst (get_token_details e s' token)"
  by (simp add: get_token_details_def requests_get_def Let_def split: option.splits sum.splits)

lemma validate_token_fst:
  assumes "http_log s = http_log s'"
  shows "fst (validate_token e s token) = fst (validate_token e s' token)"
proof -
  obtain j t where a: "get_token_details e s token = (j, t)"
    by (cases "get_token_details e s token")
  obtain j' t' where b: "get_token_details e s' token = (j', t')"
    by (cases "get_token_details e s' token")
  from get_token_details_fst [OF assms, of e token] a b have "j = j'" by simp
  with a b show ?thesis by (simp add: validate_token_def split: sum.splits)
qed

lemma refresh_try_adopted:
  assumes "remote e (http_log s) (TOKEN_URL, rt) = Some r"
    and "raise_for_status r = Inr ()"
    and "json_body r = Some (JObj kvs)"
    and "map_of kvs ''token'' = Some tok"
    and "timedelta_of e Seconds (case map_of kvs ''expiresIn'' of None \<Rightarrow> JInt 86400 | Some v \<Rightarrow> v) = Inr d"
    and "datetime_add (next_now e s) d = Inr ex"
    and "new = [(''access_token'', tok), (''created'', JStr (isoformat e (next_now e s))),
                (''expiration'', JStr (isoformat e ex))]"
  shows "refresh_try e s rt =
     validate_token e
       (snd (save_file e (tick (s\<lparr>http_log := http_log s @ [(TOKEN_URL, rt)]\<rparr>)) AUTH_TOKEN_FILE new)
          \<lparr>auth_token_data := JObj new\<rparr>) tok"
  using assms
  by (simp add: refresh_try_def requests_get_def Let_def response_json_def datetime_now_def
        next_now_def tick_def case_sum_prod_id split: prod.splits)

section \<open>The decision of \<open>get_valid_token\<close>\<close>

lemma refresh_auth_token_True:
  assumes "refresh_auth_token e s = (Inr True, s')"
  shows "\<exists>r kvs tok new.
     remote e (http_log s) (TOKEN_URL, dict_get (refresh_token_data s) ''refresh_token'') = Some r \<and>
     json_body r = Some (JObj kvs) \<and> map_of kvs ''token'' = Some tok \<and>
     auth_token_data s' = JObj new \<and>
     dict_get (auth_token_data s') ''access_token'' = tok \<and>
     save_log s' = save_log s @ [(AUTH_TOKEN_FILE, new)] \<and>
     (can_write e AUTH_TOKEN_FILE \<longrightarrow> auth_file s' = Some (Json (auth_token_data s')))"
proof -
  let ?rt = "dict_get (refresh_token_data s) ''refresh_token''"
  have nb: "\<not> breaks_check (refresh_token_data s)"
    using assms by (auto simp: refresh_auth_token_raises)
  have v: "isValid e (next_now e s) (refresh_token_data s)"
    using assms nb by (cases "isValid e (next_now e s) (refresh_token_data s)")
      (simp_all add: refresh_auth_token_invalid)
  with assms have "refresh_try e (tick s) ?rt = (Inr True, s')"
    by (cases "refresh_try e (tick s) ?rt")
       (auto simp: refresh_auth_token_valid split: if_splits sum.splits)
  from refresh_try_True [OF this] show ?thesis
    by (auto simp: tick_fields dict_get_def)
qed

lemma get_valid_token_eq:
  "get_valid_token e s =
     (if breaks_check (auth_token_data s) then (Inl TypeError, s)
      else if isValid e (next_now e s) (auth_token_data s)
      then (Inr (dict_get (auth_token_data s) ''access_token''), tick s)
      else if breaks_check (refresh_token_data s)
      then (Inl TypeError, after_check e s (auth_token_data s))
      else if isValid e (next_now e (after_check e s (auth_token_data s))) (refresh_token_data s)
      then (case refresh_auth_token e (tick (after_check e s (auth_token_data s))) of
              (Inr True, s3) \<Rightarrow> (Inr (dict_get (auth_token_data s3) ''access_token''), s3)
            | (_, s3) \<Rightarrow> (Inr JNull, s3))
      else (Inr JNull,
            after_check e (after_check e s (auth_token_data s)) (refresh_token_data s)))"
proof -
  let ?a = "auth_token_data s"
  let ?r = "refresh_token_data s"
  let ?s1 = "after_check e s ?a"
  let ?s2 = "after_check e ?s1 ?r"
  show ?thesis
  proof (cases "breaks_check ?a")
    case True
    then show ?thesis by (simp add: get_valid_token_def and_has_not_expired_eq)
  next
    case na: False
    show ?thesis
    proof (cases "isValid e (next_now e s) ?a")
      case True
      then obtain kvs where "?a = JObj kvs" by (auto dest: isValid_object)
      with True na isValid_parses [OF True] show ?thesis
        by (simp add: get_valid_token_def and_has_not_expired_eq after_check_def tick_fields
              dict_get_def)
    next
      case ia: False
      show ?thesis
      proof (cases "breaks_check ?r")
        case True
        with na ia show ?thesis
          by (simp add: get_valid_token_def and_has_not_expired_eq after_check_fields)
      next
        case nr: False
        show ?thesis
        proof (cases "isValid e (next_now e ?s1) ?r")
          case False
          with na ia nr show ?thesis
            by (simp add: get_valid_token_def and_has_not_expired_eq after_check_fields)
        next
          case True
          have t2: "?s2 = tick ?s1"
            using isValid_parses [OF True] by (simp add: after_check_def)
          have nr': "\<not> breaks_check (refresh_token_data (tick ?s1))"
            using nr by (simp add: tick_fields after_check_fields)
          obtain b s3 where r: "refresh_auth_token e (tick ?s1) = (Inr b, s3)"
            using refresh_auth_token_total [OF nr', of e]
            by (cases "refresh_auth_token e (tick ?s1)") auto
          show ?thesis
          proof (cases b)
            case False
            with na ia nr True r t2 show ?thesis
              by (simp add: get_valid_token_def and_has_not_expired_eq after_check_fields)
          next
            case b: True
            with r refresh_auth_token_True [of e "tick ?s1" s3]
            obtain new where "auth_token_data s3 = JObj new" by auto
            with na ia nr True r t2 b show ?thesis
              by (simp add: get_valid_token_def and_has_not_expired_eq after_check_fields
                    dict_get_def)
          qed
        qed
      qed
    qed
  qed
qed

lemmas run_defs =
  get_valid_token_def and_has_not_expired_def has_not_expired_def refresh_auth_token_def
  refresh_try_def setup_with_invite_code_def setup_try_def remove_invite_def
  validate_token_def get_token_details_def requests_get_def raise_for_status_def
  response_json_def save_file_def datetime_now_def datetime_add_def timedelta_int_def
  utc_instant_def MAX_MICROS_def dict_get_def default_expiration_days_def

lemmas demo_defs =
  env_ok_def demo_env_def demo_fromisoformat_def demo_isoformat_def clock_2026_def
  clock_turning_def server_def reply_def writable_def read_only_def manager_def
  init_def disk_def load_file_def manager_access_5_def manager_refresh_5_def
  access_rec_def refresh_rec_def invite_rec_def setup_body_def token_body_def
  details_body_def past_text_def future_text_def

lemmas spec_defs = isValid_def parses_def next_now_def after_check_def tick_def breaks_check_def

text \<open>
  The decision on records that are dicts (or anything else on which the check returns).
  If the access record in memory is valid at the reading of the clock, the result is
  the \<open>access_token\<close> entry of that record and no request is sent. Otherwise, if the
  refresh record is valid at the next reading, \<open>refresh_auth_token\<close> runs; when it returns
  \<open>True\<close> the result is the \<open>access_token\<close> of the record then in memory, which is the
  token of the reply and the record handed to \<open>_save_file\<close>. In every other case, a
  failed refresh included, the result is \<open>None\<close>.
\<close>

lemma get_valid_token_on_records:
  assumes "\<not> breaks_check (auth_token_data s)" and "\<not> breaks_check (refresh_token_data s)"
  shows "get_valid_token e s =
     (if isValid e (next_now e s) (auth_token_data s)
      then (Inr (dict_get (auth_token_data s) ''access_token''), tick s)
      else if isValid e (next_now e (after_check e s (auth_token_data s))) (refresh_token_data s)
      then (case refresh_auth_token e (tick (after_check e s (auth_token_data s))) of
              (Inr True, s3) \<Rightarrow> (Inr (dict_get (auth_token_data s3) ''access_token''), s3)
            | (_, s3) \<Rightarrow> (Inr JNull, s3))
      else (Inr JNull,
            after_check e (after_check e s (auth_token_data s)) (refresh_token_data s))) \<and>
   http_log (tick s) = http_log s \<and>
   (\<forall>s2 s3. refresh_auth_token e s2 = (Inr True, s3) \<longrightarrow>
      (\<exists>r kvs tok new.
         remote e (http_log s2) (TOKEN_URL, dict_get (refresh_token_data s2) ''refresh_token'') = Some r \<and>
         json_body r = Some (JObj kvs) \<and> map_of kvs ''token'' = Some tok \<and>
         auth_token_data s3 = JObj new \<and>
         dict_get (auth_token_data s3) ''access_token'' = tok \<and>
         save_log s3 = save_log s2 @ [(AUTH_TOKEN_FILE, new)]))"
proof (intro conjI allI impI)
  show "get_valid_token e s =
     (if isValid e (next_now e s) (auth_token_data s)
      then (Inr (dict_get (auth_token_data s) ''access_token''), tick s)
      else if isValid e (next_now e (after_check e s (auth_token_data s))) (refresh_token_data s)
      then (case refresh_auth_token e (tick (after_check e s (auth_token_data s))) of
              (Inr True, s3) \<Rightarrow> (Inr (dict_get (auth_token_data s3) ''access_token''), s3)
            | (_, s3) \<Rightarrow> (Inr JNull, s3))
      else (Inr JNull,
            after_check e (after_check e s (auth_token_data s)) (refresh_token_data s)))"
    using assms by (simp add: get_valid_token_eq)
next
  show "http_log (tick s) = http_log s" by (simp add: tick_fields)
next
  fix s2 s3
  assume "refresh_auth_token e s2 = (Inr True, s3)"
  from refresh_auth_token_True [OF this]
  show "\<exists>r kvs tok new.
         remote e (http_log s2) (TOKEN_URL, dict_get (refresh_token_data s2) ''refresh_token'') = Some r \<and>
         json_body r = Some (JObj kvs) \<and> map_of kvs ''token'' = Some tok \<and>
         auth_token_data s3 = JObj new \<and>
         dict_get (auth_token_data s3) ''access_token'' = tok \<and>
         save_log s3 = save_log s2 @ [(AUTH_TOKEN_FILE, new)]"
    by blast
qed

lemma get_valid_token_examples:
  "get_valid_token env_ok (manager [] (refresh_rec future_text) (access_rec future_text)) =
     (Inr (JStr ''A0''), tick (manager [] (refresh_rec future_text) (access_rec future_text))) \<and>
   fst (get_valid_token env_ok (manager [] (refresh_rec future_text) (access_rec past_text))) =
     Inr (JStr ''A2'') \<and>
   fst (get_valid_token
          (demo_env clock_2026 (server None (reply 200 token_body) (reply 200 (details_body False)))
             writable)
          (manager [] (refresh_rec future_text) (access_rec past_text))) = Inr JNull \<and>
   fst (get_valid_token env_ok (manager [] (refresh_rec past_text) (access_rec past_text))) =
     Inr JNull"
  by (simp add: run_defs demo_defs spec_defs)

text \<open>
  C1. The access file holds the JSON document \<open>5\<close>, and so does the access record of the
  manager built from it. \<open>get_valid_token\<close> then raises TypeError out of its first test
  (\<open>self._has_not_expired(self.auth_token_data)\<close>, whose membership test is not inside
  the \<open>try\<close>). The claim has the call go through the decision order and end in a token
  or in \<open>None\<close> for every state of the manager.
\<close>

theorem get_valid_token_of_number:
  "auth_token_data manager_access_5 = JInt 5 \<and>
   get_valid_token env_ok manager_access_5 = (Inl TypeError, manager_access_5)"
  by (simp add: get_valid_token_eq breaks_check_def manager_access_5_def init_def disk_def
        load_file_def)

section \<open>Requests sent by one call\<close>




section \<open>A refresh record that is not valid\<close>

text \<open>
  On records on which the check returns: with a refresh record that is absent or not
  valid at the reading of the clock, \<open>refresh_auth_token\<close> returns \<open>False\<close> and only the
  clock has been read. With an access record that is not valid either,
  \<open>get_valid_token\<close> returns \<open>None\<close>, again without a request.
\<close>

lemma no_refresh_on_records:
  "(\<not> breaks_check (refresh_token_data s) \<and>
    \<not> isValid e (next_now e s) (refresh_token_data s) \<longrightarrow>
      refresh_auth_token e s = (Inr False, after_check e s (refresh_token_data s)) \<and>
      http_log (after_check e s (refresh_token_data s)) = http_log s) \<and>
   (\<not> breaks_check (auth_token_data s) \<and> \<not> breaks_check (refresh_token_data s) \<and>
    \<not> isValid e (next_now e s) (auth_token_data s) \<and>
    \<not> isValid e (next_now e (after_check e s (auth_token_data s))) (refresh_token_data s) \<longrightarrow>
      get_valid_token e s =
        (Inr JNull, after_check e (after_check e s (auth_token_data s)) (refresh_token_data s)) \<and>
      http_log (after_check e (after_check e s (auth_token_data s)) (refresh_token_data s)) =
        http_log s)"
  by (simp add: refresh_auth_token_invalid after_check_fields get_valid_token_eq)

lemma no_refresh_examples:
  "fst (refresh_auth_token env_ok (manager [] (refresh_rec past_text) (access_rec past_text))) =
     Inr False \<and>
   http_log (snd (refresh_auth_token env_ok
     (manager [] (refresh_rec past_text) (access_rec past_text)))) = [] \<and>
   fst (refresh_auth_token env_ok (manager [] [] (access_rec past_text))) = Inr False \<and>
   http_log (snd (refresh_auth_token env_ok (manager [] [] (access_rec past_text)))) = [] \<and>
   fst (get_valid_token env_ok (manager [] (refresh_rec past_text) (access_rec past_text))) =
     Inr JNull \<and>
   http_log (snd (get_valid_token env_ok
     (manager [] (refresh_rec past_text) (access_rec past_text)))) = [] \<and>
   fst (get_valid_token env_ok (manager [] [] [])) = Inr JNull \<and>
   http_log (snd (get_valid_token env_ok (manager [] [] []))) = []"
  by (simp add: run_defs demo_defs)

text \<open>No request is sent when the check raises, either.\<close>

lemma no_request_when_check_raises:
  "breaks_check (refresh_token_data s) \<Longrightarrow> \<not> isValid e (next_now e s) (auth_token_data s) \<Longrightarrow>
   http_log (snd (refresh_auth_token e s)) = http_log s \<and>
   http_log (snd (get_valid_token e s)) = http_log s"
  by (simp add: refresh_auth_token_raises get_valid_token_eq after_check_fields)

text \<open>
  C6. The refresh file holds the JSON document \<open>5\<close>, and so does the refresh record of
  the manager built from it; there is no access record. The refresh record is not valid,
  yet \<open>refresh_auth_token\<close> does not return \<open>False\<close> and \<open>get_valid_token\<close> does not return
  \<open>None\<close>: both raise TypeError, out of the membership test that \<open>_has_not_expired\<close> makes
  before its \<open>try\<close>. No request is sent.
\<close>

theorem refresh_of_number:
  "refresh_token_data manager_refresh_5 = JInt 5 \<and>
   auth_token_data manager_refresh_5 = JObj [] \<and>
   \<not> isValid env_ok (next_now env_ok manager_refresh_5) (refresh_token_data manager_refresh_5) \<and>
   refresh_auth_token env_ok manager_refresh_5 = (Inl TypeError, manager_refresh_5) \<and>
   get_valid_token env_ok manager_refresh_5 = (Inl TypeError, manager_refresh_5)"
  by (simp add: refresh_auth_token_raises get_valid_token_eq breaks_check_def isValid_def
        after_check_def parses_def manager_refresh_5_def init_def disk_def load_file_def)

section \<open>A refresh whose token fails validation\<close>

text \<open>
  C7. Take a valid refresh record with a refresh token, a reply to the refresh request
  that carries a token, and a lifetime that gives an expiration. If the validation of
  the new token does not say \<open>True\<close> (it says \<open>False\<close>, or it raises),
  \<open>refresh_auth_token\<close> returns \<open>False\<close>; the new record is nonetheless the access
  record in memory, it was handed to \<open>_save_file\<close>, and it is in the file when the file
  can be written.
\<close>

theorem refresh_kept_after_failed_validation:
  assumes "isValid e (next_now e s) (refresh_token_data s)"
    and "rt = dict_get (refresh_token_data s) ''refresh_token''"
    and "truthy rt"
    and "remote e (http_log s) (TOKEN_URL, rt) = Some r"
    and "raise_for_status r = Inr ()"
    and "json_body r = Some (JObj kvs)"
    and "map_of kvs ''token'' = Some tok"
    and "timedelta_of e Seconds
           (case map_of kvs ''expiresIn'' of None \<Rightarrow> JInt 86400 | Some v \<Rightarrow> v) = Inr d"
    and "datetime_add (next_now e (tick s)) d = Inr ex"
    and "new = [(''access_token'', tok), (''created'', JStr (isoformat e (next_now e (tick s)))),
                (''expiration'', JStr (isoformat e ex))]"
    and "fst (validate_token e (s\<lparr>http_log := http_log s @ [(TOKEN_URL, rt)]\<rparr>) tok) \<noteq> Inr True"
  shows "fst (refresh_auth_token e s) = Inr False \<and>
         auth_token_data (snd (refresh_auth_token e s)) = JObj new \<and>
         save_log (snd (refresh_auth_token e s)) = save_log s @ [(AUTH_TOKEN_FILE, new)] \<and>
         (can_write e AUTH_TOKEN_FILE \<longrightarrow>
            auth_file (snd (refresh_auth_token e s)) = Some (Json (JObj new)))"
proof -
  let ?s3 = "snd (save_file e (tick ((tick s)\<lparr>http_log := http_log (tick s) @ [(TOKEN_URL, rt)]\<rparr>))
                    AUTH_TOKEN_FILE new) \<lparr>auth_token_data := JObj new\<rparr>"
  have tr: "refresh_try e (tick s) rt = validate_token e ?s3 tok"
    using assms by (intro refresh_try_adopted) (simp_all add: tick_fields)
  have log: "http_log ?s3 = http_log (s\<lparr>http_log := http_log s @ [(TOKEN_URL, rt)]\<rparr>)"
    by (simp add: save_file_def tick_def Let_def)
  obtain v s4 where v: "validate_token e ?s3 tok = (v, s4)"
    by (cases "validate_token e ?s3 tok")
  from validate_token_fst [OF log, of e tok] v assms(11) have nv: "v \<noteq> Inr True" by simp
  from validate_token_state [of e ?s3 tok] v
  have s4: "s4 = ?s3\<lparr>http_log := http_log ?s3 @ [(DETAILS_URL, tok)]\<rparr>" by simp
  have res: "refresh_auth_token e s = (Inr False, s4)"
    using assms(1-3) tr v nv
    by (cases v) (auto simp: refresh_auth_token_valid)
  show ?thesis
    unfolding res using s4
    by (simp add: save_file_def tick_def Let_def)
qed



theorem refresh_kept_after_failed_validation_witness:
  "fst (refresh_auth_token
          (demo_env clock_2026 (server None (reply 200 token_body) (reply 200 (details_body False)))
             writable)
          (manager [] (refresh_rec future_text) (access_rec past_text))) = Inr False \<and>
   auth_token_data (snd (refresh_auth_token
          (demo_env clock_2026 (server None (reply 200 token_body) (reply 200 (details_body False)))
             writable)
          (manager [] (refresh_rec future_text) (access_rec past_text)))) =
     JObj [(''access_token'', JStr ''A2''), (''created'', JStr ''2026-11-04T00:00:00+00:00''),
      (''expiration'', JStr ''2026-11-04T01:00:00+00:00'')] \<and>
   auth_file (snd (refresh_auth_token
          (demo_env clock_2026 (server None (reply 200 token_body) (reply 200 (details_body False)))
             writable)
          (manager [] (refresh_rec future_text) (access_rec past_text)))) =
     Some (Json (JObj [(''access_token'', JStr ''A2''), (''created'', JStr ''2026-11-04T00:00:00+00:00''),
      (''expiration'', JStr ''2026-11-04T01:00:00+00:00'')]))"
proof -
  let ?e = "demo_env clock_2026 (server None (reply 200 token_body) (reply 200 (details_body False)))
             writable"
  let ?s = "manager [] (refresh_rec future_text) (access_rec past_text)"
  let ?r = "\<lparr>status_code = 200, json_body = Some token_body\<rparr>"
  let ?kvs = "[(''token'', JStr ''A2''), (''expiresIn'', JInt 3600)]"
  let ?new = "[(''access_token'', JStr ''A2''), (''created'', JStr ''2026-11-04T00:00:00+00:00''),
      (''expiration'', JStr ''2026-11-04T01:00:00+00:00'')]"
  have 1: "isValid ?e (next_now ?e ?s) (refresh_token_data ?s)"
    by (simp add: demo_defs spec_defs)
  have 2: "JStr ''R0'' = dict_get (refresh_token_data ?s) ''refresh_token''"
    by (simp add: demo_defs dict_get_def)
  have 3: "truthy (JStr ''R0'')" by simp
  have 4: "remote ?e (http_log ?s) (TOKEN_URL, JStr ''R0'') = Some ?r"
    by (simp add: demo_defs)
  have 5: "raise_for_status ?r = Inr ()" by (simp add: raise_for_status_def)
  have 6: "json_body ?r = Some (JObj ?kvs)" by (simp add: token_body_def)
  have 7: "map_of ?kvs ''token'' = Some (JStr ''A2'')" by simp
  have 8: "timedelta_of ?e Seconds
       (case map_of ?kvs ''expiresIn'' of None \<Rightarrow> JInt 86400 | Some v \<Rightarrow> v) = Inr 3600000000"
    by (simp add: timedelta_int_def)
  have 9: "datetime_add (next_now ?e (tick ?s)) 3600000000 = Inr 63929350800000000"
    by (simp add: datetime_add_def MAX_MICROS_def demo_defs spec_defs)
  have 10: "?new = [(''access_token'', JStr ''A2''),
       (''created'', JStr (isoformat ?e (next_now ?e (tick ?s)))),
       (''expiration'', JStr (isoformat ?e 63929350800000000))]"
    by (simp add: demo_defs spec_defs)
  have 11: "fst (validate_token ?e (?s\<lparr>http_log := http_log ?s @ [(TOKEN_URL, JStr ''R0'')]\<rparr>)
       (JStr ''A2'')) \<noteq> Inr True"
    by (simp add: validate_token_def get_token_details_def requests_get_def response_json_def
          demo_defs)
  have w: "can_write ?e AUTH_TOKEN_FILE" by (simp add: demo_defs)
  from refresh_kept_after_failed_validation [OF 1 2 3 4 5 6 7 8 9 10 11] w
  show ?thesis by blast
qed

section \<open>Validating a token\<close>

lemma validate_token_eq:
  "validate_token e s token =
     (case remote e (http_log s) (DETAILS_URL, token) of
        None \<Rightarrow> Inr False
      | Some r \<Rightarrow>
          if status_code r = 200
          then (case json_body r of
                  None \<Rightarrow> Inr False
                | Some j \<Rightarrow>
                    if truthy j
                    then (case py_get j ''validToken'' (JBool False) of
                            Inl x \<Rightarrow> Inl x
                          | Inr v \<Rightarrow> Inr (truthy v))
                    else Inr False)
          else Inr False,
      s\<lparr>http_log := http_log s @ [(DETAILS_URL, token)]\<rparr>)"
  by (simp add: validate_token_def get_token_details_def requests_get_def response_json_def
        Let_def split: option.splits sum.splits)

text \<open>
  C8. As the code has it, \<open>validate_token\<close> returns \<open>False\<close> when the request raises,
  when the status is not 200 (another 2xx included), and when the body of a 200 reply
  is not JSON or is falsy. For a 200 reply whose body is a JSON object it returns the
  truth value of the \<open>validToken\<close> entry, \<open>False\<close> when there is none. In all these cases
  it returns normally, having sent the one details request.
\<close>

theorem validate_token_result:
  "(remote e (http_log s) (DETAILS_URL, token) = None \<longrightarrow>
      fst (validate_token e s token) = Inr False) \<and>
   (\<forall>r. remote e (http_log s) (DETAILS_URL, token) = Some r \<and> status_code r \<noteq> 200 \<longrightarrow>
      fst (validate_token e s token) = Inr False) \<and>
   (\<forall>r. remote e (http_log s) (DETAILS_URL, token) = Some r \<and> status_code r = 200 \<and>
        json_body r = None \<longrightarrow>
      fst (validate_token e s token) = Inr False) \<and>
   (\<forall>r j. remote e (http_log s) (DETAILS_URL, token) = Some r \<and> status_code r = 200 \<and>
        json_body r = Some j \<and> \<not> truthy j \<longrightarrow>
      fst (validate_token e s token) = Inr False) \<and>
   (\<forall>r kvs. remote e (http_log s) (DETAILS_URL, token) = Some r \<and> status_code r = 200 \<and>
        json_body r = Some (JObj kvs) \<longrightarrow>
      fst (validate_token e s token) =
        Inr (truthy (case map_of kvs ''validToken'' of None \<Rightarrow> JBool False | Some v \<Rightarrow> v))) \<and>
   snd (validate_token e s token) = s\<lparr>http_log := http_log s @ [(DETAILS_URL, token)]\<rparr>"
  by (auto simp: validate_token_eq split: option.splits)

theorem validate_token_result_witness:
  "fst (validate_token env_ok (manager [] [] []) (JStr ''A0'')) = Inr True \<and>
   fst (validate_token
          (demo_env clock_2026 (server None None (reply 200 (details_body False))) writable)
          (manager [] [] []) (JStr ''A0'')) = Inr False \<and>
   fst (validate_token
          (demo_env clock_2026 (server None None (reply 200 (JObj [(''scopes'', JArr [])]))) writable)
          (manager [] [] []) (JStr ''A0'')) = Inr False \<and>
   fst (validate_token
          (demo_env clock_2026 (server None None (reply 401 (details_body True))) writable)
          (manager [] [] []) (JStr ''A0'')) = Inr False \<and>
   fst (validate_token
          (demo_env clock_2026 (server None None None) writable)
          (manager [] [] []) (JStr ''A0'')) = Inr False"
proof (intro conjI)
  show "fst (validate_token env_ok (manager [] [] []) (JStr ''A0'')) = Inr True"
    using validate_token_result [of env_ok "manager [] [] []" "JStr ''A0''"]
    by (simp add: demo_defs)
next
  show "fst (validate_token
          (demo_env clock_2026 (server None None (reply 200 (details_body False))) writable)
          (manager [] [] []) (JStr ''A0'')) = Inr False"
    using validate_token_result
      [of "demo_env clock_2026 (server None None (reply 200 (details_body False))) writable"
          "manager [] [] []" "JStr ''A0''"]
    by (simp add: demo_defs)
next
  show "fst (validate_token
          (demo_env clock_2026 (server None None (reply 200 (JObj [(''scopes'', JArr [])]))) writable)
          (manager [] [] []) (JStr ''A0'')) = Inr False"
    using validate_token_result
      [of "demo_env clock_2026 (server None None (reply 200 (JObj [(''scopes'', JArr [])]))) writable"
          "manager [] [] []" "JStr ''A0''"]
    by (simp add: demo_defs)
next
  show "fst (validate_token
          (demo_env clock_2026 (server None None (reply 401 (details_body True))) writable)
          (manager [] [] []) (JStr ''A0'')) = Inr False"
    using validate_token_result
      [of "demo_env clock_2026 (server None None (reply 401 (details_body True))) writable"
          "manager [] [] []" "JStr ''A0''"]
    by (simp add: demo_defs)
next
  show "fst (validate_token
          (demo_env clock_2026 (server None None None) writable)
          (manager [] [] []) (JStr ''A0'')) = Inr False"
    using validate_token_result
      [of "demo_env clock_2026 (server None None None) writable"
          "manager [] [] []" "JStr ''A0''"]
    by (simp add: demo_defs)
qed

text \<open>A reply with status 201 that says the token is valid: \<open>validate_token\<close> returns
  \<open>False\<close>, the status not being 200.\<close>

theorem validate_token_status_201:
  "remote (demo_env clock_2026 (server None None (reply 201 (details_body True))) writable)
      (http_log (manager [] [] [])) (DETAILS_URL, JStr ''A0'') =
     Some \<lparr>status_code = 201, json_body = Some (JObj [(''validToken'', JBool True)])\<rparr> \<and>
   fst (validate_token
          (demo_env clock_2026 (server None None (reply 201 (details_body True))) writable)
          (manager [] [] []) (JStr ''A0'')) = Inr False"
  by (simp add: validate_token_eq demo_defs)

text \<open>A 200 reply whose body is a JSON array: \<open>details.get\<close> raises, and
  \<open>validate_token\<close> has no handler.\<close>

lemma validate_token_array_body:
  "fst (validate_token
          (demo_env clock_2026 (server None None (reply 200 (JArr [JInt 1]))) writable)
          (manager [] [] []) (JStr ''A0'')) = Inl AttributeError"
  by (simp add: validate_token_eq demo_defs)

section \<open>What a setup writes\<close>

lemma setup_try_memory:
  "invite_code_data (snd (setup_try e s c days)) = invite_code_data s \<and>
   refresh_token_data (snd (setup_try e s c days)) = refresh_token_data s \<and>
   auth_token_data (snd (setup_try e s c days)) = auth_token_data s"
  by (simp add: setup_try_def requests_get_def Let_def datetime_now_def save_file_def
        remove_invite_def split: option.splits sum.splits)

lemma setup_memory:
  "invite_code_data (snd (setup_with_invite_code e s c days)) = invite_code_data s \<and>
   refresh_token_data (snd (setup_with_invite_code e s c days)) = refresh_token_data s \<and>
   auth_token_data (snd (setup_with_invite_code e s c days)) = auth_token_data s"
  using setup_try_memory [of e s c days]
  by (cases "setup_try e s c days") (auto simp: setup_with_invite_code_def split: sum.splits)

lemma setup_total: "\<exists>b. fst (setup_with_invite_code e s c days) = Inr b"
  by (cases "setup_try e s c days") (auto simp: setup_with_invite_code_def split: sum.splits)

lemma timedelta_int_Inr: "timedelta_int u n = Inr d \<Longrightarrow> d = n * unit_micros u"
  by (simp add: timedelta_int_def Let_def split: if_splits)

lemma datetime_add_Inr: "datetime_add t d = Inr x \<Longrightarrow> x = t + d"
  by (simp add: datetime_add_def split: if_splits)

lemma setup_try_True:
  assumes "setup_try e s c days = (Inr True, s')"
  shows "\<exists>r kvs tok rtok d1 d2.
     remote e (http_log s) (SETUP_URL, c) = Some r \<and>
     json_body r = Some (JObj kvs) \<and>
     map_of kvs ''token'' = Some tok \<and> map_of kvs ''refreshToken'' = Some rtok \<and>
     timedelta_of e Seconds (case map_of kvs ''expiresIn'' of None \<Rightarrow> JInt 86400 | Some v \<Rightarrow> v) = Inr d1 \<and>
     timedelta_of e Days days = Inr d2 \<and>
     save_log s' = save_log s @
       [(AUTH_TOKEN_FILE,
         [(''access_token'', tok), (''created'', JStr (isoformat e (next_now e s))),
          (''expiration'', JStr (isoformat e (next_now e s + d1)))]),
        (REFRESH_TOKEN_FILE,
         [(''refresh_token'', rtok), (''created'', JStr (isoformat e (next_now e s))),
          (''expiration'', JStr (isoformat e (next_now e s + d2)))])] \<and>
     (can_write e AUTH_TOKEN_FILE \<longrightarrow> auth_file s' =
        Some (Json (JObj [(''access_token'', tok), (''created'', JStr (isoformat e (next_now e s))),
          (''expiration'', JStr (isoformat e (next_now e s + d1)))]))) \<and>
     (can_write e REFRESH_TOKEN_FILE \<longrightarrow> refresh_file s' =
        Some (Json (JObj [(''refresh_token'', rtok), (''created'', JStr (isoformat e (next_now e s))),
          (''expiration'', JStr (isoformat e (next_now e s + d2)))]))) \<and>
     invite_file s' = None"
proof -
  from assms obtain r where r: "remote e (http_log s) (SETUP_URL, c) = Some r"
    by (auto simp: setup_try_def requests_get_def Let_def split: option.splits)
  from assms r obtain j where j: "json_body r = Some j" and st: "raise_for_status r = Inr ()"
    by (auto simp: setup_try_def requests_get_def Let_def response_json_def
          split: option.splits sum.splits)
  from assms r j st obtain v where "py_get j ''expiresIn'' (JInt 86400) = Inr v"
    by (auto simp: setup_try_def requests_get_def Let_def response_json_def split: sum.splits)
  then obtain kvs where kvs: "j = JObj kvs" by (auto dest: py_get_Inr)
  let ?ei = "case map_of kvs ''expiresIn'' of None \<Rightarrow> JInt 86400 | Some v \<Rightarrow> v"
  from assms r j st kvs obtain d1 where d1: "timedelta_of e Seconds ?ei = Inr d1"
    by (auto simp: setup_try_def requests_get_def Let_def response_json_def datetime_now_def
          split: sum.splits)
  from assms r j st kvs d1 obtain x1 where x1: "datetime_add (next_now e s) d1 = Inr x1"
    by (auto simp: setup_try_def requests_get_def Let_def response_json_def datetime_now_def
          next_now_def split: sum.splits)
  from assms r j st kvs d1 x1 obtain d2 where d2: "timedelta_of e Days days = Inr d2"
    by (auto simp: setup_try_def requests_get_def Let_def response_json_def datetime_now_def
          next_now_def split: sum.splits)
  from assms r j st kvs d1 x1 d2 obtain x2 where x2: "datetime_add (next_now e s) d2 = Inr x2"
    by (auto simp: setup_try_def requests_get_def Let_def response_json_def datetime_now_def
          next_now_def split: sum.splits)
  from assms r j st kvs d1 x1 d2 x2 obtain tok where tok: "map_of kvs ''token'' = Some tok"
    by (auto simp: setup_try_def requests_get_def Let_def response_json_def datetime_now_def
          next_now_def split: sum.splits option.splits)
  from assms r j st kvs d1 x1 d2 x2 tok obtain rtok where rtok: "map_of kvs ''refreshToken'' = Some rtok"
    by (auto simp: setup_try_def requests_get_def Let_def response_json_def datetime_now_def
          next_now_def save_file_def split: sum.splits option.splits if_splits)
  from assms r j st kvs d1 x1 d2 x2 tok rtok
  have "save_log s' = save_log s @
       [(AUTH_TOKEN_FILE,
         [(''access_token'', tok), (''created'', JStr (isoformat e (next_now e s))),
          (''expiration'', JStr (isoformat e x1))]),
        (REFRESH_TOKEN_FILE,
         [(''refresh_token'', rtok), (''created'', JStr (isoformat e (next_now e s))),
          (''expiration'', JStr (isoformat e x2))])] \<and>
     (can_write e AUTH_TOKEN_FILE \<longrightarrow> auth_file s' =
        Some (Json (JObj [(''access_token'', tok), (''created'', JStr (isoformat e (next_now e s))),
          (''expiration'', JStr (isoformat e x1))]))) \<and>
     (can_write e REFRESH_TOKEN_FILE \<longrightarrow> refresh_file s' =
        Some (Json (JObj [(''refresh_token'', rtok), (''created'', JStr (isoformat e (next_now e s))),
          (''expiration'', JStr (isoformat e x2))]))) \<and>
     invite_file s' = None"
    by (auto simp: setup_try_def requests_get_def Let_def response_json_def datetime_now_def
          next_now_def save_file_def remove_invite_def split: sum.splits if_splits)
  with r j kvs tok rtok d1 d2 datetime_add_Inr [OF x1] datetime_add_Inr [OF x2]
  show ?thesis by blast
qed

text \<open>
  C9. After a call of \<open>setup_with_invite_code\<close> that returns \<open>True\<close>, made when the clock
  shows \<open>now\<close>, two records have been handed to \<open>_save_file\<close>, the access record and then
  the refresh record, and each is in its file when the file can be written. Both have
  \<open>created = now\<close>. The access record expires at \<open>now\<close> plus \<open>timedelta(seconds=expiresIn)\<close>,
  which is \<open>expiresIn\<close> seconds for an integer and 86400 seconds when the reply has no
  \<open>expiresIn\<close>; the refresh record expires at \<open>now\<close> plus \<open>timedelta(days=expiration_days)\<close>,
  30 days by default.
\<close>

theorem setup_success_records:
  assumes "setup_with_invite_code e s c days = (Inr True, s')"
  shows "\<exists>r kvs tok rtok d1 d2.
     remote e (http_log s) (SETUP_URL, c) = Some r \<and>
     json_body r = Some (JObj kvs) \<and>
     map_of kvs ''token'' = Some tok \<and> map_of kvs ''refreshToken'' = Some rtok \<and>
     timedelta_of e Seconds (case map_of kvs ''expiresIn'' of None \<Rightarrow> JInt 86400 | Some v \<Rightarrow> v) = Inr d1 \<and>
     timedelta_of e Days days = Inr d2 \<and>
     (map_of kvs ''expiresIn'' = None \<longrightarrow> d1 = 86400 * 1000000) \<and>
     (\<forall>n. map_of kvs ''expiresIn'' = Some (JInt n) \<longrightarrow> d1 = n * 1000000) \<and>
     (\<forall>n. days = JInt n \<longrightarrow> d2 = n * 86400000000) \<and>
     (days = default_expiration_days \<longrightarrow> d2 = 30 * 86400000000) \<and>
     save_log s' = save_log s @
       [(AUTH_TOKEN_FILE,
         [(''access_token'', tok), (''created'', JStr (isoformat e (next_now e s))),
          (''expiration'', JStr (isoformat e (next_now e s + d1)))]),
        (REFRESH_TOKEN_FILE,
         [(''refresh_token'', rtok), (''created'', JStr (isoformat e (next_now e s))),
          (''expiration'', JStr (isoformat e (next_now e s + d2)))])] \<and>
     (can_write e AUTH_TOKEN_FILE \<longrightarrow> auth_file s' =
        Some (Json (JObj [(''access_token'', tok), (''created'', JStr (isoformat e (next_now e s))),
          (''expiration'', JStr (isoformat e (next_now e s + d1)))]))) \<and>
     (can_write e REFRESH_TOKEN_FILE \<longrightarrow> refresh_file s' =
        Some (Json (JObj [(''refresh_token'', rtok), (''created'', JStr (isoformat e (next_now e s))),
          (''expiration'', JStr (isoformat e (next_now e s + d2)))])))"
proof -
  from assms have "setup_try e s c days = (Inr True, s')"
    by (cases "setup_try e s c days")
       (auto simp: setup_with_invite_code_def split: if_splits sum.splits)
  from setup_try_True [OF this] obtain r kvs tok rtok d1 d2 where
    h: "remote e (http_log s) (SETUP_URL, c) = Some r"
       "json_body r = Some (JObj kvs)"
       "map_of kvs ''token'' = Some tok" "map_of kvs ''refreshToken'' = Some rtok"
       "timedelta_of e Seconds (case map_of kvs ''expiresIn'' of None \<Rightarrow> JInt 86400 | Some v \<Rightarrow> v) = Inr d1"
       "timedelta_of e Days days = Inr d2"
    and w: "save_log s' = save_log s @
       [(AUTH_TOKEN_FILE,
         [(''access_token'', tok), (''created'', JStr (isoformat e (next_now e s))),
          (''expiration'', JStr (isoformat e (next_now e s + d1)))]),
        (REFRESH_TOKEN_FILE,
         [(''refresh_token'', rtok), (''created'', JStr (isoformat e (next_now e s))),
          (''expiration'', JStr (isoformat e (next_now e s + d2)))])]"
     "can_write e AUTH_TOKEN_FILE \<longrightarrow> auth_file s' =
        Some (Json (JObj [(''access_token'', tok), (''created'', JStr (isoformat e (next_now e s))),
          (''expiration'', JStr (isoformat e (next_now e s + d1)))]))"
     "can_write e REFRESH_TOKEN_FILE \<longrightarrow> refresh_file s' =
        Some (Json (JObj [(''refresh_token'', rtok), (''created'', JStr (isoformat e (next_now e s))),
          (''expiration'', JStr (isoformat e (next_now e s + d2)))]))"
    by blast
  have a: "map_of kvs ''expiresIn'' = None \<longrightarrow> d1 = 86400 * 1000000"
    using h(5) by (auto simp: timedelta_int_def Let_def split: if_splits)
  have b: "\<forall>n. map_of kvs ''expiresIn'' = Some (JInt n) \<longrightarrow> d1 = n * 1000000"
    using h(5) by (auto simp: timedelta_int_def Let_def split: if_splits)
  have c: "\<forall>n. days = JInt n \<longrightarrow> d2 = n * 86400000000"
    using h(6) by (auto simp: timedelta_int_def Let_def split: if_splits)
  have d: "days = default_expiration_days \<longrightarrow> d2 = 30 * 86400000000"
    using h(6) by (auto simp: default_expiration_days_def timedelta_int_def Let_def split: if_splits)
  from h w a b c d show ?thesis
    by - ((rule exI conjI | assumption)+)
qed

lemma run_setup_ok:
  "fst (setup_with_invite_code env_ok (manager invite_rec [] []) (JStr ''I0'')
          default_expiration_days) = Inr True"
  by (simp add: run_defs demo_defs)

theorem setup_success_records_witness:
  "save_log (snd (setup_with_invite_code env_ok (manager invite_rec [] []) (JStr ''I0'')
      default_expiration_days)) =
     [(AUTH_TOKEN_FILE,
       [(''access_token'', JStr ''A1''), (''created'', JStr ''2026-11-04T00:00:00+00:00''),
        (''expiration'', JStr ''2026-11-04T01:00:00+00:00'')]),
      (REFRESH_TOKEN_FILE,
       [(''refresh_token'', JStr ''R1''), (''created'', JStr ''2026-11-04T00:00:00+00:00''),
        (''expiration'', JStr ''2026-12-04T00:00:00+00:00'')])] \<and>
   auth_file (snd (setup_with_invite_code env_ok (manager invite_rec [] []) (JStr ''I0'')
      default_expiration_days)) =
     Some (Json (JObj [(''access_token'', JStr ''A1''), (''created'', JStr ''2026-11-04T00:00:00+00:00''),
        (''expiration'', JStr ''2026-11-04T01:00:00+00:00'')])) \<and>
   refresh_file (snd (setup_with_invite_code env_ok (manager invite_rec [] []) (JStr ''I0'')
      default_expiration_days)) =
     Some (Json (JObj [(''refresh_token'', JStr ''R1''), (''created'', JStr ''2026-11-04T00:00:00+00:00''),
        (''expiration'', JStr ''2026-12-04T00:00:00+00:00'')]))"
proof -
  let ?run = "setup_with_invite_code env_ok (manager invite_rec [] []) (JStr ''I0'')
      default_expiration_days"
  have "?run = (Inr True, snd ?run)"
    using run_setup_ok by (cases ?run) simp
  from setup_success_records [OF this] obtain r kvs tok rtok d1 d2 where
    h: "remote env_ok (http_log (manager invite_rec [] [])) (SETUP_URL, JStr ''I0'') = Some r"
       "json_body r = Some (JObj kvs)"
       "map_of kvs ''token'' = Some tok" "map_of kvs ''refreshToken'' = Some rtok"
       "\<forall>n. map_of kvs ''expiresIn'' = Some (JInt n) \<longrightarrow> d1 = n * 1000000"
       "default_expiration_days = default_expiration_days \<longrightarrow> d2 = 30 * 86400000000"
    and w: "save_log (snd ?run) = save_log (manager invite_rec [] []) @
       [(AUTH_TOKEN_FILE,
         [(''access_token'', tok),
          (''created'', JStr (isoformat env_ok (next_now env_ok (manager invite_rec [] [])))),
          (''expiration'', JStr (isoformat env_ok (next_now env_ok (manager invite_rec [] []) + d1)))]),
        (REFRESH_TOKEN_FILE,
         [(''refresh_token'', rtok),
          (''created'', JStr (isoformat env_ok (next_now env_ok (manager invite_rec [] [])))),
          (''expiration'', JStr (isoformat env_ok (next_now env_ok (manager invite_rec [] []) + d2)))])]"
     "can_write env_ok AUTH_TOKEN_FILE \<longrightarrow> auth_file (snd ?run) =
        Some (Json (JObj [(''access_token'', tok),
          (''created'', JStr (isoformat env_ok (next_now env_ok (manager invite_rec [] [])))),
          (''expiration'', JStr (isoformat env_ok (next_now env_ok (manager invite_rec [] []) + d1)))]))"
     "can_write env_ok REFRESH_TOKEN_FILE \<longrightarrow> refresh_file (snd ?run) =
        Some (Json (JObj [(''refresh_token'', rtok),
          (''created'', JStr (isoformat env_ok (next_now env_ok (manager invite_rec [] [])))),
          (''expiration'', JStr (isoformat env_ok (next_now env_ok (manager invite_rec [] []) + d2)))]))"
    by blast
  from h(1,2) have kvs: "kvs = [(''token'', JStr ''A1''), (''refreshToken'', JStr ''R1''),
      (''expiresIn'', JInt 3600)]"
    by (auto simp: demo_defs)
  from h(3,4,5,6) kvs have v: "tok = JStr ''A1''" "rtok = JStr ''R1''" "d1 = 3600000000"
      "d2 = 2592000000000"
    by auto
  from w show ?thesis
    unfolding v by (simp add: demo_defs next_now_def)
qed

lemma py_get_not_object: "\<forall>kvs. j \<noteq> JObj kvs \<Longrightarrow> py_get j k dflt = Inl AttributeError"
  by (cases j) simp_all

text \<open>
  What does hold of a failing setup: when the request raises, when the status is between
  400 and 599, when the body is not JSON or not an object, and when the object has no
  \<open>token\<close>, the call returns \<open>False\<close>, nothing has been handed to \<open>_save_file\<close> and the
  three files are as they were.
\<close>

lemma setup_fails_before_writing:
  assumes "remote e (http_log s) (SETUP_URL, c) = None \<or>
     (\<exists>r. remote e (http_log s) (SETUP_URL, c) = Some r \<and>
        ((400 \<le> status_code r \<and> status_code r < 600) \<or>
         json_body r = None \<or>
         (\<exists>j. json_body r = Some j \<and> (\<forall>kvs. j \<noteq> JObj kvs)) \<or>
         (\<exists>kvs. json_body r = Some (JObj kvs) \<and> map_of kvs ''token'' = None)))"
  shows "fst (setup_with_invite_code e s c days) = Inr False \<and>
         save_log (snd (setup_with_invite_code e s c days)) = save_log s \<and>
         auth_file (snd (setup_with_invite_code e s c days)) = auth_file s \<and>
         refresh_file (snd (setup_with_invite_code e s c days)) = refresh_file s \<and>
         invite_file (snd (setup_with_invite_code e s c days)) = invite_file s"
proof -
  have "(\<exists>x. fst (setup_try e s c days) = Inl x) \<and>
        save_log (snd (setup_try e s c days)) = save_log s \<and>
        auth_file (snd (setup_try e s c days)) = auth_file s \<and>
        refresh_file (snd (setup_try e s c days)) = refresh_file s \<and>
        invite_file (snd (setup_try e s c days)) = invite_file s"
    using assms
    by (auto simp: setup_try_def requests_get_def Let_def raise_for_status_def response_json_def
          datetime_now_def py_get_not_object split: sum.splits)
  then show ?thesis
    by (cases "setup_try e s c days") (auto simp: setup_with_invite_code_def)
qed

text \<open>
  C3. The reply to the setup request has status 200 and a body with \<open>token\<close> and
  \<open>expiresIn\<close> but no \<open>refreshToken\<close>. The call returns \<open>False\<close>, yet the access record
  has been written: \<open>token_data["refreshToken"]\<close> raises after the first \<open>_save_file\<close>.
  No refresh record is written, the invite file stays, the records in memory stay.
\<close>

theorem setup_without_refresh_token:
  "fst (setup_with_invite_code
          (demo_env clock_2026
             (server (reply 200 (JObj [(''token'', JStr ''A1''), (''expiresIn'', JInt 3600)]))
                None None) writable)
          (manager invite_rec [] []) (JStr ''I0'') default_expiration_days) = Inr False \<and>
   auth_file (manager invite_rec [] []) = None \<and>
   auth_file (snd (setup_with_invite_code
          (demo_env clock_2026
             (server (reply 200 (JObj [(''token'', JStr ''A1''), (''expiresIn'', JInt 3600)]))
                None None) writable)
          (manager invite_rec [] []) (JStr ''I0'') default_expiration_days)) =
     Some (Json (JObj [(''access_token'', JStr ''A1''), (''created'', JStr ''2026-11-04T00:00:00+00:00''),
           (''expiration'', JStr ''2026-11-04T01:00:00+00:00'')])) \<and>
   save_log (snd (setup_with_invite_code
          (demo_env clock_2026
             (server (reply 200 (JObj [(''token'', JStr ''A1''), (''expiresIn'', JInt 3600)]))
                None None) writable)
          (manager invite_rec [] []) (JStr ''I0'') default_expiration_days)) =
     [(AUTH_TOKEN_FILE,
       [(''access_token'', JStr ''A1''), (''created'', JStr ''2026-11-04T00:00:00+00:00''),
        (''expiration'', JStr ''2026-11-04T01:00:00+00:00'')])] \<and>
   refresh_file (snd (setup_with_invite_code
          (demo_env clock_2026
             (server (reply 200 (JObj [(''token'', JStr ''A1''), (''expiresIn'', JInt 3600)]))
                None None) writable)
          (manager invite_rec [] []) (JStr ''I0'') default_expiration_days)) = None \<and>
   invite_file (snd (setup_with_invite_code
          (demo_env clock_2026
             (server (reply 200 (JObj [(''token'', JStr ''A1''), (''expiresIn'', JInt 3600)]))
                None None) writable)
          (manager invite_rec [] []) (JStr ''I0'') default_expiration_days)) = Some (Json (JObj invite_rec))"
  by (simp add: run_defs demo_defs)

text \<open>
  C10. \<open>setup_with_invite_code\<close> leaves the three records in memory as they are, whatever
  it returns and whatever it writes. So for a manager built with no access and no refresh
  record, \<open>get_valid_token\<close> after the setup still returns \<open>None\<close> without a request, and
  the status still has the access token absent (the whole status is returned when the
  other two records are such that the check returns on them).
\<close>

theorem setup_leaves_memory:
  "invite_code_data (snd (setup_with_invite_code e s c days)) = invite_code_data s \<and>
   refresh_token_data (snd (setup_with_invite_code e s c days)) = refresh_token_data s \<and>
   auth_token_data (snd (setup_with_invite_code e s c days)) = auth_token_data s \<and>
   (auth_token_data s = JObj [] \<and> refresh_token_data s = JObj [] \<longrightarrow>
      get_valid_token e (snd (setup_with_invite_code e s c days)) =
        (Inr JNull, snd (setup_with_invite_code e s c days))) \<and>
   (auth_token_data s = JObj [] \<longrightarrow>
      (\<forall>t. entry_status e t (auth_token_data (snd (setup_with_invite_code e s c days))) =
         (Inr \<lparr>exists = False, valid = JObj [], expired = JObj []\<rparr>, t))) \<and>
   (auth_token_data s = JObj [] \<and> \<not> breaks_check (refresh_token_data s) \<and>
    \<not> breaks_check (invite_code_data s) \<longrightarrow>
      (\<exists>r i s'. check_token_status e (snd (setup_with_invite_code e s c days)) =
         (Inr \<lparr>auth_token = \<lparr>exists = False, valid = JObj [], expired = JObj []\<rparr>,
               refresh_token = r, invite_code = i\<rparr>, s')))"
proof -
  let ?s' = "snd (setup_with_invite_code e s c days)"
  have m: "invite_code_data ?s' = invite_code_data s"
    "refresh_token_data ?s' = refresh_token_data s"
    "auth_token_data ?s' = auth_token_data s"
    using setup_memory [of e s c days] by simp_all
  have g: "auth_token_data s = JObj [] \<and> refresh_token_data s = JObj [] \<longrightarrow>
      get_valid_token e ?s' = (Inr JNull, ?s')"
    by (simp add: get_valid_token_eq m breaks_check_def isValid_def after_check_def parses_def)
  have en: "auth_token_data s = JObj [] \<longrightarrow>
      (\<forall>t. entry_status e t (auth_token_data ?s') =
         (Inr \<lparr>exists = False, valid = JObj [], expired = JObj []\<rparr>, t))"
    by (simp add: m entry_status_absent)
  have c: "auth_token_data s = JObj [] \<and> \<not> breaks_check (refresh_token_data s) \<and>
    \<not> breaks_check (invite_code_data s) \<longrightarrow>
      (\<exists>r i s'. check_token_status e ?s' =
         (Inr \<lparr>auth_token = \<lparr>exists = False, valid = JObj [], expired = JObj []\<rparr>,
               refresh_token = r, invite_code = i\<rparr>, s'))"
  proof (intro impI)
    assume h: "auth_token_data s = JObj [] \<and> \<not> breaks_check (refresh_token_data s) \<and>
      \<not> breaks_check (invite_code_data s)"
    then have "\<not> breaks_check (auth_token_data ?s')" "\<not> breaks_check (refresh_token_data ?s')"
      "\<not> breaks_check (invite_code_data ?s')"
      by (simp_all add: m breaks_check_def)
    from check_token_status_steps [OF this, of e] h
    show "\<exists>r i s'. check_token_status e ?s' =
         (Inr \<lparr>auth_token = \<lparr>exists = False, valid = JObj [], expired = JObj []\<rparr>,
               refresh_token = r, invite_code = i\<rparr>, s')"
      by (auto simp: m entry_status_absent)
  qed
  from m g en c show ?thesis by simp
qed

theorem setup_leaves_memory_witness:
  "fst (setup_with_invite_code env_ok (manager invite_rec [] []) (JStr ''I0'')
          default_expiration_days) = Inr True \<and>
   auth_file (snd (setup_with_invite_code env_ok (manager invite_rec [] []) (JStr ''I0'')
          default_expiration_days)) =
     Some (Json (JObj [(''access_token'', JStr ''A1''), (''created'', JStr ''2026-11-04T00:00:00+00:00''),
           (''expiration'', JStr ''2026-11-04T01:00:00+00:00'')])) \<and>
   auth_token_data (snd (setup_with_invite_code env_ok (manager invite_rec [] []) (JStr ''I0'')
          default_expiration_days)) = JObj [] \<and>
   fst (get_valid_token env_ok
          (snd (setup_with_invite_code env_ok (manager invite_rec [] []) (JStr ''I0'')
             default_expiration_days))) = Inr JNull"
proof -
  let ?run = "setup_with_invite_code env_ok (manager invite_rec [] []) (JStr ''I0'')
          default_expiration_days"
  have a: "auth_token_data (manager invite_rec [] []) = JObj [] \<and>
           refresh_token_data (manager invite_rec [] []) = JObj []"
    by (simp add: manager_def init_def disk_def load_file_def)
  have f: "auth_file (snd ?run) =
     Some (Json (JObj [(''access_token'', JStr ''A1''), (''created'', JStr ''2026-11-04T00:00:00+00:00''),
           (''expiration'', JStr ''2026-11-04T01:00:00+00:00'')]))"
    by (simp add: run_defs demo_defs)
  from setup_leaves_memory [of env_ok "manager invite_rec [] []" "JStr ''I0''"
      default_expiration_days] a run_setup_ok f
  show ?thesis by simp
qed

end
